theory Spec2Isabelle
  imports Main "HOL-Library.Sublist" "HOL-Library.Finite_Map" "HOL-Library.Multiset"
begin

section \<open>Go strings\<close>

text \<open>
  A Go string is a sequence of bytes; it is modelled as a \<open>string\<close> (a list of
  \<open>char\<close>, one per byte). Byte values are read with \<open>of_char\<close>.
\<close>

definition byte :: "char \<Rightarrow> nat" where
  "byte c = of_char c"

definition is_lower :: "char \<Rightarrow> bool" where
  "is_lower c = (97 \<le> byte c \<and> byte c \<le> 122)"

definition is_upper :: "char \<Rightarrow> bool" where
  "is_upper c = (65 \<le> byte c \<and> byte c \<le> 90)"

definition is_digit :: "char \<Rightarrow> bool" where
  "is_digit c = (48 \<le> byte c \<and> byte c \<le> 57)"

definition is_alnum :: "char \<Rightarrow> bool" where
  "is_alnum c = (is_lower c \<or> is_upper c \<or> is_digit c)"

text \<open>
  \<open>unicode.IsSpace\<close> holds for the code points of Unicode's White\_Space property.
  \<open>space_runes\<close> lists their UTF-8 encodings: U+0009..U+000D, U+0020, U+0085, U+00A0,
  U+1680, U+2000..U+200A, U+2028, U+2029, U+202F, U+205F, U+3000.
\<close>

definition space_runes :: "string list" where
  "space_runes =
    [[CHR 0x09], [CHR 0x0A], [CHR 0x0B], [CHR 0x0C], [CHR 0x0D], [CHR 0x20],
     [CHR 0xC2, CHR 0x85], [CHR 0xC2, CHR 0xA0],
     [CHR 0xE1, CHR 0x9A, CHR 0x80],
     [CHR 0xE2, CHR 0x80, CHR 0x80], [CHR 0xE2, CHR 0x80, CHR 0x81],
     [CHR 0xE2, CHR 0x80, CHR 0x82], [CHR 0xE2, CHR 0x80, CHR 0x83],
     [CHR 0xE2, CHR 0x80, CHR 0x84], [CHR 0xE2, CHR 0x80, CHR 0x85],
     [CHR 0xE2, CHR 0x80, CHR 0x86], [CHR 0xE2, CHR 0x80, CHR 0x87],
     [CHR 0xE2, CHR 0x80, CHR 0x88], [CHR 0xE2, CHR 0x80, CHR 0x89],
     [CHR 0xE2, CHR 0x80, CHR 0x8A],
     [CHR 0xE2, CHR 0x80, CHR 0xA8], [CHR 0xE2, CHR 0x80, CHR 0xA9],
     [CHR 0xE2, CHR 0x80, CHR 0xAF], [CHR 0xE2, CHR 0x81, CHR 0x9F],
     [CHR 0xE3, CHR 0x80, CHR 0x80]]"

text \<open>
  \<open>trim_runes rs s\<close> removes from the front of \<open>s\<close> every leading occurrence of
  one of the byte sequences \<open>rs\<close>. The recursion is on the length of \<open>s\<close>: an empty
  sequence never counts as an occurrence.
\<close>

function trim_runes :: "string list \<Rightarrow> string \<Rightarrow> string" where
  "trim_runes rs s =
     (case find (\<lambda>r. r \<noteq> [] \<and> prefix r s) rs of
        None \<Rightarrow> s
      | Some r \<Rightarrow> trim_runes rs (drop (length r) s))"
  by pat_completeness auto
termination
proof (relation "measure (\<lambda>(rs, s). length s)")
  show "wf (measure (\<lambda>(rs, s). length s))" by simp
next
  fix rs :: "string list" and s r :: string
  assume "find (\<lambda>r. r \<noteq> [] \<and> prefix r s) rs = Some r"
  then have "r \<noteq> []" and "prefix r s"
    by (auto simp: find_Some_iff)
  then have "s \<noteq> []" by auto
  with \<open>r \<noteq> []\<close> show "((rs, drop (length r) s), (rs, s)) \<in> measure (\<lambda>(rs, s). length s)"
    by simp
qed

declare trim_runes.simps [simp del]

definition TrimSpace :: "string \<Rightarrow> string" where
  \<comment> \<open>\<open>strings.TrimSpace\<close>: leading and trailing white space removed.\<close>
  "TrimSpace s = rev (trim_runes (map rev space_runes) (rev (trim_runes space_runes s)))"

fun Split :: "char \<Rightarrow> string \<Rightarrow> string list" where
  \<comment> \<open>\<open>strings.Split(s, sep)\<close> for a one-byte separator; the result is never empty.\<close>
  "Split sep [] = [[]]"
| "Split sep (c # s) =
     (if c = sep then [] # Split sep s
      else (case Split sep s of [] \<Rightarrow> [[c]] | w # ws \<Rightarrow> (c # w) # ws))"

definition Cut :: "char \<Rightarrow> string \<Rightarrow> string \<times> string \<times> bool" where
  \<comment> \<open>\<open>strings.Cut(s, sep)\<close> for a one-byte separator: around its first occurrence.\<close>
  "Cut sep s =
     (takeWhile (\<lambda>c. c \<noteq> sep) s, drop 1 (dropWhile (\<lambda>c. c \<noteq> sep) s), sep \<in> set s)"

definition CutLast :: "char \<Rightarrow> string \<Rightarrow> (string \<times> string) option" where
  \<comment> \<open>\<open>i := strings.LastIndex(s, sep)\<close>: \<open>None\<close> when \<open>i < 0\<close>, else \<open>(s[:i], s[i+1:])\<close>.\<close>
  "CutLast sep s =
     (if sep \<in> set s
      then Some (rev (drop 1 (dropWhile (\<lambda>c. c \<noteq> sep) (rev s))),
                 rev (takeWhile (\<lambda>c. c \<noteq> sep) (rev s)))
      else None)"

fun IndexStr :: "string \<Rightarrow> string \<Rightarrow> nat option" where
  \<comment> \<open>\<open>strings.Index(s, sub)\<close>, \<open>None\<close> for -1.\<close>
  "IndexStr sub [] = (if sub = [] then Some 0 else None)"
| "IndexStr sub (c # s) =
     (if prefix sub (c # s) then Some 0 else map_option Suc (IndexStr sub s))"

definition to_lower :: "char \<Rightarrow> char" where
  "to_lower c = (if is_upper c then char_of (byte c + 32) else c)"

function digits :: "nat \<Rightarrow> string" where
  "digits n = (if n < 10 then [char_of (48 + n)] else digits (n div 10) @ [char_of (48 + n mod 10)])"
  by pat_completeness auto
termination
  by (relation "measure id") auto

declare digits.simps [simp del]

definition itoa :: "int \<Rightarrow> string" where
  \<comment> \<open>the verb \<open>%d\<close> of \<open>fmt\<close> on an \<open>int\<close>.\<close>
  "itoa i = (if i < 0 then CHR ''-'' # digits (nat (- i)) else digits (nat i))"

section \<open>net/url\<close>

text \<open>
  \<open>url.Parse\<close> of the Go standard library (as of Go 1.22), on which both
  \<open>parseProxyLine\<close> and \<open>http.NewRequest\<close> rest. The fields \<open>RawPath\<close>, \<open>RawFragment\<close>
  and \<open>OmitHost\<close> of \<open>url.URL\<close>, which only steer how a URL is printed again, are left
  out.
\<close>

record userinfo =
  username :: string
  password :: string
  passwordSet :: bool

record url =
  Scheme :: string
  Opaque :: string
  User :: "userinfo option"
  Host :: string
  Path :: string
  ForceQuery :: bool
  RawQuery :: string
  Fragment :: string

datatype url_error =
    InvalidControlCharacter
  | MissingProtocolScheme
  | FirstPathSegmentColon
  | InvalidUserinfo
  | MissingBracket
  | InvalidPort string
  | EscapeError string
  | InvalidHostError string

datatype encoding =
  encodePath | encodePathSegment | encodeHost | encodeZone | encodeUserPassword
  | encodeQueryComponent | encodeFragment

definition ishex :: "char \<Rightarrow> bool" where
  "ishex c = (is_digit c \<or> (97 \<le> byte c \<and> byte c \<le> 102) \<or> (65 \<le> byte c \<and> byte c \<le> 70))"

definition unhex :: "char \<Rightarrow> nat" where
  "unhex c =
     (if is_digit c then byte c - 48
      else if 97 \<le> byte c \<and> byte c \<le> 102 then byte c - 97 + 10
      else if 65 \<le> byte c \<and> byte c \<le> 70 then byte c - 65 + 10
      else 0)"

definition shouldEscape :: "char \<Rightarrow> encoding \<Rightarrow> bool" where
  "shouldEscape c mode =
     (if is_alnum c then False
      else if (mode = encodeHost \<or> mode = encodeZone) \<and> c \<in> set ''!$&'()*+,;=:[]<>\"'' then False
      else if c \<in> set ''-_.~'' then False
      else if c \<in> set ''$&+,/:;=?@'' \<and> mode = encodePath then c = CHR ''?''
      else if c \<in> set ''$&+,/:;=?@'' \<and> mode = encodePathSegment then c \<in> set ''/;,?''
      else if c \<in> set ''$&+,/:;=?@'' \<and> mode = encodeUserPassword then c \<in> set ''@/?:''
      else if c \<in> set ''$&+,/:;=?@'' \<and> mode = encodeQueryComponent then True
      else if c \<in> set ''$&+,/:;=?@'' \<and> mode = encodeFragment then False
      else if mode = encodeFragment \<and> c \<in> set ''!()*'' then False
      else True)"

fun unescape_check :: "encoding \<Rightarrow> string \<Rightarrow> url_error option" where
  \<comment> \<open>the first loop of \<open>unescape\<close>: are the \<open>%\<close>-escapes and the host bytes valid?\<close>
  "unescape_check mode [] = None"
| "unescape_check mode (c # s) =
     (if c = CHR ''%'' then
        (case s of
           a # b # s' \<Rightarrow>
             if \<not> ishex a \<or> \<not> ishex b then Some (EscapeError (take 3 (c # s)))
             else if mode = encodeHost \<and> unhex a < 8 \<and> [c, a, b] \<noteq> ''%25''
               then Some (EscapeError [c, a, b])
             else if mode = encodeZone \<and> [c, a, b] \<noteq> ''%25''
                     \<and> unhex a * 16 + unhex b \<noteq> 32
                     \<and> shouldEscape (char_of (unhex a * 16 + unhex b)) encodeHost
               then Some (EscapeError [c, a, b])
             else unescape_check mode s'
         | _ \<Rightarrow> Some (EscapeError (take 3 (c # s))))
      else if c = CHR ''+'' then unescape_check mode s
      else if (mode = encodeHost \<or> mode = encodeZone) \<and> byte c < 128 \<and> shouldEscape c encodeHost
        then Some (InvalidHostError [c])
      else unescape_check mode s)"

fun unescape_decode :: "encoding \<Rightarrow> string \<Rightarrow> string" where
  \<comment> \<open>the second loop of \<open>unescape\<close>, on a string that passed the first.\<close>
  "unescape_decode mode [] = []"
| "unescape_decode mode (c # s) =
     (if c = CHR ''%'' then
        (case s of
           a # b # s' \<Rightarrow> char_of (unhex a * 16 + unhex b) # unescape_decode mode s'
         | _ \<Rightarrow> c # s)
      else if c = CHR ''+'' \<and> mode = encodeQueryComponent then CHR '' '' # unescape_decode mode s
      else c # unescape_decode mode s)"

definition unescape :: "string \<Rightarrow> encoding \<Rightarrow> url_error + string" where
  "unescape s mode =
     (case unescape_check mode s of Some e \<Rightarrow> Inl e | None \<Rightarrow> Inr (unescape_decode mode s))"

fun getScheme :: "string \<Rightarrow> nat \<Rightarrow> string \<Rightarrow> url_error + (string \<times> string)" where
  \<comment> \<open>\<open>getScheme rawURL i s\<close>: the loop of \<open>getScheme\<close> at index \<open>i\<close>, \<open>s = rawURL[i:]\<close>.\<close>
  "getScheme rawURL i [] = Inr ([], rawURL)"
| "getScheme rawURL i (c # s) =
     (if is_lower c \<or> is_upper c then getScheme rawURL (Suc i) s
      else if is_digit c \<or> c = CHR ''+'' \<or> c = CHR ''-'' \<or> c = CHR ''.'' then
        (if i = 0 then Inr ([], rawURL) else getScheme rawURL (Suc i) s)
      else if c = CHR '':'' then
        (if i = 0 then Inl MissingProtocolScheme else Inr (take i rawURL, s))
      else Inr ([], rawURL))"

definition validOptionalPort :: "string \<Rightarrow> bool" where
  "validOptionalPort port =
     (case port of [] \<Rightarrow> True
      | c # ds \<Rightarrow> c = CHR '':'' \<and> list_all is_digit ds)"

definition parseHost :: "string \<Rightarrow> url_error + string" where
  "parseHost host =
     (if prefix ''['' host then
        (case CutLast CHR '']'' host of
           None \<Rightarrow> Inl MissingBracket
         | Some (front, colonPort) \<Rightarrow>
             if \<not> validOptionalPort colonPort then Inl (InvalidPort colonPort)
             else (case IndexStr ''%25'' front of
                     Some zone \<Rightarrow>
                       (case unescape (take zone front) encodeHost of
                          Inl e \<Rightarrow> Inl e
                        | Inr host1 \<Rightarrow>
                       (case unescape (drop zone front) encodeZone of
                          Inl e \<Rightarrow> Inl e
                        | Inr host2 \<Rightarrow>
                       (case unescape (CHR '']'' # colonPort) encodeHost of
                          Inl e \<Rightarrow> Inl e
                        | Inr host3 \<Rightarrow> Inr (host1 @ host2 @ host3))))
                   | None \<Rightarrow> unescape host encodeHost))
      else
        (case CutLast CHR '':'' host of
           Some (front, port) \<Rightarrow>
             if \<not> validOptionalPort (CHR '':'' # port) then Inl (InvalidPort (CHR '':'' # port))
             else unescape host encodeHost
         | None \<Rightarrow> unescape host encodeHost))"

definition validUserinfo :: "string \<Rightarrow> bool" where
  "validUserinfo s = list_all (\<lambda>r. is_alnum r \<or> r \<in> set ''-._:~!$&'()*+,;=%@'') s"

definition parseAuthority :: "string \<Rightarrow> url_error + (userinfo option \<times> string)" where
  "parseAuthority authority =
     (case CutLast CHR ''@'' authority of
        None \<Rightarrow>
          (case parseHost authority of Inl e \<Rightarrow> Inl e | Inr host \<Rightarrow> Inr (None, host))
      | Some (uinfo, hostpart) \<Rightarrow>
          (case parseHost hostpart of
             Inl e \<Rightarrow> Inl e
           | Inr host \<Rightarrow>
               if \<not> validUserinfo uinfo then Inl InvalidUserinfo
               else if CHR '':'' \<notin> set uinfo then
                 (case unescape uinfo encodeUserPassword of
                    Inl e \<Rightarrow> Inl e
                  | Inr name \<Rightarrow>
                      Inr (Some \<lparr>username = name, password = [], passwordSet = False\<rparr>, host))
               else
                 (case Cut CHR '':'' uinfo of (name, pw, _) \<Rightarrow>
                 (case unescape name encodeUserPassword of
                    Inl e \<Rightarrow> Inl e
                  | Inr name' \<Rightarrow>
                 (case unescape pw encodeUserPassword of
                    Inl e \<Rightarrow> Inl e
                  | Inr pw' \<Rightarrow>
                      Inr (Some \<lparr>username = name', password = pw', passwordSet = True\<rparr>, host))))))"

definition empty_url :: url where
  "empty_url = \<lparr>Scheme = [], Opaque = [], User = None, Host = [], Path = [],
                ForceQuery = False, RawQuery = [], Fragment = []\<rparr>"

definition stringContainsCTLByte :: "string \<Rightarrow> bool" where
  "stringContainsCTLByte s = list_ex (\<lambda>b. byte b < 32 \<or> byte b = 127) s"

definition setPath :: "url \<Rightarrow> string \<Rightarrow> url_error + url" where
  "setPath u p = (case unescape p encodePath of Inl e \<Rightarrow> Inl e | Inr path \<Rightarrow> Inr (u\<lparr>Path := path\<rparr>))"

definition parse :: "string \<Rightarrow> url_error + url" where
  \<comment> \<open>\<open>parse(rawURL, viaRequest)\<close> with \<open>viaRequest = false\<close>, as \<open>url.Parse\<close> calls it.\<close>
  "parse rawURL =
     (if stringContainsCTLByte rawURL then Inl InvalidControlCharacter
      else if rawURL = ''*'' then Inr (empty_url\<lparr>Path := ''*''\<rparr>)
      else
        (case getScheme rawURL 0 rawURL of
           Inl e \<Rightarrow> Inl e
         | Inr (scheme, rest0) \<Rightarrow>
             let u0 = empty_url\<lparr>Scheme := map to_lower scheme\<rparr>;
                 (rest, u1) =
                   (if suffix ''?'' rest0 \<and> count_list rest0 CHR ''?'' = 1
                    then (butlast rest0, u0\<lparr>ForceQuery := True\<rparr>)
                    else (case Cut CHR ''?'' rest0 of (r, q, _) \<Rightarrow> (r, u0\<lparr>RawQuery := q\<rparr>)))
             in
               if \<not> prefix ''/'' rest \<and> Scheme u1 \<noteq> [] then Inr (u1\<lparr>Opaque := rest\<rparr>)
               else if \<not> prefix ''/'' rest \<and> CHR '':'' \<in> set (fst (Cut CHR ''/'' rest))
                 then Inl FirstPathSegmentColon
               else if (Scheme u1 \<noteq> [] \<or> \<not> prefix ''///'' rest) \<and> prefix ''//'' rest then
                 (case Cut CHR ''/'' (drop 2 rest) of (authority, _, _) \<Rightarrow>
                    (case parseAuthority authority of
                       Inl e \<Rightarrow> Inl e
                     | Inr (usr, host) \<Rightarrow>
                         setPath (u1\<lparr>User := usr, Host := host\<rparr>)
                                 (drop (length authority) (drop 2 rest))))
               else setPath u1 rest))"

definition setFragment :: "url \<Rightarrow> string \<Rightarrow> url_error + url" where
  "setFragment u f =
     (case unescape f encodeFragment of Inl e \<Rightarrow> Inl e | Inr frag \<Rightarrow> Inr (u\<lparr>Fragment := frag\<rparr>))"


section \<open>Errors\<close>

text \<open>
  The error values of the program. \<open>apiError\<close> is the program's own error type;
  \<open>UrlError\<close> is \<open>*url.Error\<close> of \<open>url.Parse\<close> (the URL and the cause);
  \<open>Errorf\<close> keeps the format and the arguments of a \<open>fmt.Errorf\<close> call;
  \<open>External\<close> is an error that comes back from a collaborator (transport, body
  reader, JSON decoder, cache, resource limits), known by its text;
  \<open>NilDereference\<close> is Go's run-time panic where the source would read through a
  \<open>nil\<close> response.
\<close>

record apiError =
  err :: string
  statusCode :: int

datatype 'e fmtarg = Str string | Num int | Err 'e

datatype error =
    ApiError apiError
  | UrlError string url_error
  | ErrorsNew string
  | Errorf string "error fmtarg list"
  | External string
  | NilDereference

definition apiError_Error :: "apiError \<Rightarrow> string" where
  "apiError_Error a = err a"

definition apiError_StatusCode :: "apiError \<Rightarrow> int" where
  "apiError_StatusCode a = statusCode a"

definition Parse :: "string \<Rightarrow> error + url" where
  \<comment> \<open>\<open>url.Parse\<close>\<close>
  "Parse rawURL =
     (case Cut CHR ''#'' rawURL of (u, frag, _) \<Rightarrow>
        (case parse u of
           Inl e \<Rightarrow> Inl (UrlError u e)
         | Inr pu \<Rightarrow>
             if frag = [] then Inr pu
             else (case setFragment pu frag of
                     Inl e \<Rightarrow> Inl (UrlError rawURL e)
                   | Inr pu' \<Rightarrow> Inr pu')))"

section \<open>net/http, the collaborators and the observable effects\<close>

record body =
  data :: string
  read_err :: "error option"

record response =
  StatusCode :: int
  Body :: body

record request =
  Method :: string
  URL :: string
  UserAgent :: string

datatype round_trip = Failed error | Responded response

text \<open>
  An \<open>*http.Client\<close>: the proxy its transport goes through (\<open>None\<close> for a client
  handed in by the caller) and what \<open>Do\<close> gives for a request at the \<open>n\<close>-th attempt
  of one \<open>retryRequest\<close> call: an error, or the response.
\<close>

record http_Client =
  Proxy :: "url option"
  Do :: "request \<Rightarrow> nat \<Rightarrow> round_trip"

text \<open>
  What the program does to the outside world, in order: a round trip of an HTTP client,
  a \<open>fmt.Fprintf(os.Stderr, ...)\<close> whose format string is the text of an error followed
  by a suffix, a read and a write of the cache, and the raising of the resource limits.
\<close>

datatype event =
    RoundTrip "url option" request
  | Stderr error string
  | CacheGet string
  | CachePut string "(string, string) fmap"
  | RLimits

text \<open>
  The collaborators outside the repository, as parameters:
  \<^item> \<open>Decode_detail\<close>: \<open>json.NewDecoder(body).Decode(pl)\<close> for the one-field struct of
    \<open>formatError\<close>: the decoder's error, or the value of the field \<open>detail\<close> (empty when
    the field is absent);
  \<^item> \<open>backoffs\<close>: how many times the exponential back-off policy grants another attempt
    before it says \<open>Stop\<close> (in the library this depends on the elapsed time);
  \<^item> \<open>IsValidIp\<close>, \<open>ParseUrl\<close>, \<open>LiftRLimits\<close>: the helpers of \<open>go-helpers\<close>
    (\<open>ParseUrl\<close> yields \<open>Inl\<close> when the helper panics);
  \<^item> \<open>ProxyClient\<close>: the behaviour of the client that \<open>proxyIp\<close> builds for a proxy URL;
  \<^item> \<open>cache_Get\<close>, \<open>cache_Put\<close>, \<open>IsErrorOk\<close>: the \<open>cachita\<close> file cache; \<open>cache_Get\<close>
    gives the error and the entries decoded into the caller's map, in the order in which
    \<open>range\<close> will visit them;
  \<^item> \<open>url_String\<close>: \<open>(*url.URL).String\<close>;
  \<^item> \<open>schedule\<close>: the order in which the units of work handed to the worker pool reach
    the lock of the result map;
  \<^item> \<open>GOOS\<close>, \<open>GOARCH\<close>: the constants of package \<open>runtime\<close>.
\<close>

record env =
  Decode_detail :: "body \<Rightarrow> error + string"
  backoffs :: nat
  IsValidIp :: "string \<Rightarrow> bool"
  ParseUrl :: "string \<Rightarrow> error + url"
  LiftRLimits :: "error option"
  ProxyClient :: "url \<Rightarrow> request \<Rightarrow> nat \<Rightarrow> round_trip"
  cache_Get :: "string \<Rightarrow> error option \<times> (string \<times> string) list"
  cache_Put :: "string \<Rightarrow> (string, string) fmap \<Rightarrow> error option"
  IsErrorOk :: "error \<Rightarrow> bool"
  url_String :: "url \<Rightarrow> string"
  schedule :: "string list \<Rightarrow> string list"
  GOOS :: string
  GOARCH :: string

definition StatusText_table :: "(int \<times> string) list" where
  "StatusText_table =
    [(100, ''Continue''), (101, ''Switching Protocols''), (102, ''Processing''),
     (103, ''Early Hints''),
     (200, ''OK''), (201, ''Created''), (202, ''Accepted''),
     (203, ''Non-Authoritative Information''), (204, ''No Content''),
     (205, ''Reset Content''), (206, ''Partial Content''), (207, ''Multi-Status''),
     (208, ''Already Reported''), (226, ''IM Used''),
     (300, ''Multiple Choices''), (301, ''Moved Permanently''), (302, ''Found''),
     (303, ''See Other''), (304, ''Not Modified''), (305, ''Use Proxy''),
     (307, ''Temporary Redirect''), (308, ''Permanent Redirect''),
     (400, ''Bad Request''), (401, ''Unauthorized''), (402, ''Payment Required''),
     (403, ''Forbidden''), (404, ''Not Found''), (405, ''Method Not Allowed''),
     (406, ''Not Acceptable''), (407, ''Proxy Authentication Required''),
     (408, ''Request Timeout''), (409, ''Conflict''), (410, ''Gone''),
     (411, ''Length Required''), (412, ''Precondition Failed''),
     (413, ''Request Entity Too Large''), (414, ''Request URI Too Long''),
     (415, ''Unsupported Media Type''), (416, ''Requested Range Not Satisfiable''),
     (417, ''Expectation Failed''), (418, ''I'' @ [CHR 0x27] @ ''m a teapot''),
     (421, ''Misdirected Request''), (422, ''Unprocessable Entity''), (423, ''Locked''),
     (424, ''Failed Dependency''), (425, ''Too Early''), (426, ''Upgrade Required''),
     (428, ''Precondition Required''), (429, ''Too Many Requests''),
     (431, ''Request Header Fields Too Large''),
     (451, ''Unavailable For Legal Reasons''),
     (500, ''Internal Server Error''), (501, ''Not Implemented''), (502, ''Bad Gateway''),
     (503, ''Service Unavailable''), (504, ''Gateway Timeout''),
     (505, ''HTTP Version Not Supported''), (506, ''Variant Also Negotiates''),
     (507, ''Insufficient Storage''), (508, ''Loop Detected''), (510, ''Not Extended''),
     (511, ''Network Authentication Required'')]"

definition StatusText :: "int \<Rightarrow> string" where
  \<comment> \<open>\<open>http.StatusText\<close>: empty for a code it does not know.\<close>
  "StatusText code = (case map_of StatusText_table code of Some s \<Rightarrow> s | None \<Rightarrow> [])"

definition StatusBadRequest :: int where
  "StatusBadRequest = 400"

definition StatusTooManyRequests :: int where
  "StatusTooManyRequests = 429"

definition MethodGet :: string where
  "MethodGet = ''GET''"

definition NewRequest :: "string \<Rightarrow> string \<Rightarrow> error + request" where
  \<comment> \<open>\<open>http.NewRequest(method, u, nil)\<close> for a valid method: it fails when \<open>u\<close> does not parse.\<close>
  "NewRequest method u =
     (case Parse u of
        Inl e \<Rightarrow> Inl e
      | Inr _ \<Rightarrow> Inr \<lparr>Method = method, URL = u, UserAgent = []\<rparr>)"

section \<open>The retryable HTTP client of \<open>client.go\<close>\<close>

definition formatError :: "env \<Rightarrow> response \<Rightarrow> apiError \<times> event list" where
  "formatError env r =
     (let e = \<lparr>err = [], statusCode = 0\<rparr> in
      case Decode_detail env (Body r) of
        Inl derr \<Rightarrow> (e\<lparr>statusCode := StatusCode r\<rparr>, [Stderr derr []])
      | Inr ErrorMessage \<Rightarrow>
          if ErrorMessage \<noteq> [] then (e\<lparr>err := ErrorMessage, statusCode := StatusCode r\<rparr>, [])
          else (e\<lparr>err := ''error statusCode code '' @ itoa (StatusCode r) @ '': ''
                          @ StatusText (StatusCode r),
                   statusCode := StatusCode r\<rparr>, []))"

text \<open>
  \<open>request\<close> returns the pair \<open>(resp, err)\<close> of the source, the effects, and the number
  of attempts made on the client so far. The \<open>body\<close> argument of the source is \<open>nil\<close> at
  both call sites and is left out.
\<close>

definition request ::
  "env \<Rightarrow> http_Client \<Rightarrow> nat \<Rightarrow> string \<Rightarrow> string \<Rightarrow> string
     \<Rightarrow> (response option \<times> error option) \<times> event list \<times> nat" where
  "request env cl n method u useragent =
     (case NewRequest method u of
        Inl e \<Rightarrow> ((None, Some e), [], n)
      | Inr r0 \<Rightarrow>
          let r = r0\<lparr>UserAgent := useragent\<rparr> in
          (case Do cl r n of
             Failed e \<Rightarrow> ((None, Some e), [RoundTrip (Proxy cl) r], Suc n)
           | Responded resp \<Rightarrow>
               if StatusCode resp \<ge> StatusBadRequest then
                 (case formatError env resp of
                    (e, evs) \<Rightarrow> ((None, Some (ApiError e)), RoundTrip (Proxy cl) r # evs, Suc n))
               else ((Some resp, None), [RoundTrip (Proxy cl) r], Suc n)))"

text \<open>
  \<open>backoff.Retry\<close> runs the operation; when the operation returns an error it asks the
  policy for the next delay and runs the operation again, unless the policy says
  \<open>Stop\<close>. \<open>retry_loop\<close> is that loop for the closure of \<open>retryRequest\<close>, with \<open>b\<close> the
  number of further attempts the policy still grants; the closure asks for another
  attempt when \<open>resp \<noteq> nil\<close> and its status is at least 429.
\<close>

fun retry_loop ::
  "env \<Rightarrow> http_Client \<Rightarrow> string \<Rightarrow> string \<Rightarrow> string \<Rightarrow> nat \<Rightarrow> nat
     \<Rightarrow> (response option \<times> error option) \<times> event list \<times> nat" where
  "retry_loop env cl method u useragent b n =
     (case request env cl n method u useragent of
        ((resp, e), evs, n') \<Rightarrow>
          if (case resp of None \<Rightarrow> False | Some r \<Rightarrow> StatusCode r \<ge> StatusTooManyRequests)
          then (case b of
                  0 \<Rightarrow> ((resp, e), evs, n')
                | Suc b' \<Rightarrow>
                    (case retry_loop env cl method u useragent b' n' of
                       (res, evs', n'') \<Rightarrow> (res, evs @ evs', n'')))
          else ((resp, e), evs, n'))"

declare retry_loop.simps [simp del]

definition retryRequest ::
  "env \<Rightarrow> http_Client \<Rightarrow> string \<Rightarrow> string \<Rightarrow> string
     \<Rightarrow> (response option \<times> error option) \<times> event list \<times> nat" where
  "retryRequest env cl method u useragent =
     retry_loop env cl method u useragent (backoffs env) 0"


section \<open>The line parser and the probe\<close>

definition probe_useragent :: string where
  "probe_useragent = ''Mozilla/5.0 (Windows NT 10.0; Win64; x64) AppleWebKit/537.36 (KHTML, like Gecko) Chrome/58.0.3029.81 Safari/537.36''"

definition ReadAll :: "body \<Rightarrow> error + string" where
  \<comment> \<open>\<open>ioutil.ReadAll\<close>; the source drops the bytes read before an error.\<close>
  "ReadAll b = (case read_err b of Some e \<Rightarrow> Inl e | None \<Rightarrow> Inr (data b))"

definition proxyIp :: "env \<Rightarrow> url \<Rightarrow> (error + string) \<times> event list" where
  "proxyIp env proxyUrl =
     (let c = \<lparr>Proxy = Some proxyUrl, Do = ProxyClient env proxyUrl\<rparr> in
      case retryRequest env c MethodGet ''http://ifconfig.io/ip'' probe_useragent of
        ((r, e), evs, _) \<Rightarrow>
          (case e of
             Some e' \<Rightarrow> (Inl e', evs)
           | None \<Rightarrow>
               (case r of
                  None \<Rightarrow> (Inl NilDereference, evs)
                | Some resp \<Rightarrow>
                    (case ReadAll (Body resp) of
                       Inl e' \<Rightarrow> (Inl e', evs)
                     | Inr b \<Rightarrow>
                         if StatusCode resp \<noteq> 200
                         then (Inl (Errorf ''invalid Status Code: %d'' [Num (StatusCode resp)]), evs)
                         else let ip = TrimSpace b in
                           if \<not> IsValidIp env ip
                           then (Inl (Errorf ''invalid IP: %s'' [Str ip]), evs)
                           else (Inr ip, evs)))))"

fun proxy_url_text :: "string list \<Rightarrow> string option" where
  \<comment> \<open>the \<open>switch len(s)\<close> of \<open>parseProxyLine\<close>: the text \<open>lu\<close>, or \<open>None\<close> in the default case.\<close>
  "proxy_url_text [s0, s1, s2, s3] =
     Some (''http://'' @ s2 @ '':'' @ s3 @ ''@'' @ s0 @ '':'' @ s1)"
| "proxy_url_text [s0, s1] = Some (''http://'' @ s0 @ '':'' @ s1)"
| "proxy_url_text s = None"

definition parseProxyLine :: "env \<Rightarrow> string \<Rightarrow> (error + (string \<times> url)) \<times> event list" where
  "parseProxyLine env line =
     (let s = Split CHR '':'' (TrimSpace line) in
      case proxy_url_text s of
        None \<Rightarrow> (Inl (Errorf ''invalid proxy line %s'' [Str line]), [])
      | Some lu \<Rightarrow>
          (case Parse lu of
             Inl e \<Rightarrow> (Inl (Errorf ''%s parsing line %s URL %s'' [Err e, Str line, Str lu]), [])
           | Inr u \<Rightarrow>
               (case proxyIp env u of
                  (Inl e, evs) \<Rightarrow>
                    (Inl (Errorf ''%s getting IP for line %s URL %s'' [Err e, Str line, Str lu]), evs)
                | (Inr ipStr, evs) \<Rightarrow> (Inr (ipStr, u), evs))))"

section \<open>The client\<close>

text \<open>
  The \<open>client\<close> struct. The cache is a collaborator (see \<open>env\<close>); the mutex has no
  field here, since the model runs the units of work one after the other, in the order
  \<open>schedule\<close>.
\<close>

record client =
  Client :: http_Client
  listUrl :: string
  proxies :: "(string, url) fmap"

datatype 'a outcome = Return 'a | Panic error

definition Version :: string where
  "Version = ''v1''"

definition userAgent :: "env \<Rightarrow> string" where
  "userAgent env = ''rsocks_client/'' @ Version @ '' '' @ GOOS env @ '' '' @ GOARCH env"

definition len :: "('k, 'v) fmap \<Rightarrow> nat" where
  \<comment> \<open>\<open>len\<close> of a Go map\<close>
  "len m = fcard (fmdom m)"

definition Total :: "client \<Rightarrow> int" where
  "Total c = int (len (proxies c))"

definition get ::
  "env \<Rightarrow> client \<Rightarrow> string \<Rightarrow> (response option \<times> error option) \<times> event list \<times> nat" where
  "get env c u = retryRequest env (Client c) MethodGet u (userAgent env)"

fun load_cached :: "env \<Rightarrow> (string \<times> string) list \<Rightarrow> client \<Rightarrow> error option \<times> client" where
  \<comment> \<open>the \<open>range\<close> loop of \<open>getListCache\<close>; \<open>Some e\<close> when \<open>h.ParseUrl\<close> panics with \<open>e\<close>.\<close>
  "load_cached env [] c = (None, c)"
| "load_cached env ((ip, u) # l) c =
     (case ParseUrl env u of
        Inl e \<Rightarrow> (Some e, c)
      | Inr pu \<Rightarrow> load_cached env l (c\<lparr>proxies := fmupd ip pu (proxies c)\<rparr>))"

definition getListCache ::
  "env \<Rightarrow> string \<Rightarrow> client \<Rightarrow> error option outcome \<times> client \<times> event list" where
  "getListCache env k c =
     (case cache_Get env k of
        (e, l) \<Rightarrow>
          if (case e of None \<Rightarrow> False | Some e' \<Rightarrow> \<not> IsErrorOk env e')
          then (Return e, c, [CacheGet k])
          else if length l > 0 then
            (case load_cached env l c of
               (Some p, c') \<Rightarrow> (Panic p, c', [CacheGet k])
             | (None, c') \<Rightarrow> (Return None, c', [CacheGet k]))
          else (Return None, c, [CacheGet k]))"

definition putListCache :: "env \<Rightarrow> string \<Rightarrow> client \<Rightarrow> error option \<times> event list" where
  "putListCache env k c =
     (let l = fmmap (url_String env) (proxies c) in (cache_Put env k l, [CachePut k l]))"

definition MaxScanTokenSize :: nat where
  "MaxScanTokenSize = 64 * 1024"

definition dropCR :: "string \<Rightarrow> string" where
  "dropCR l = (if l \<noteq> [] \<and> last l = CHR 0x0D then butlast l else l)"

text \<open>
  The tokens that \<open>scanner.Scan\<close> delivers with the default split function
  \<open>bufio.ScanLines\<close> and the default buffer: the lines of the text, without the line
  end. A line of \<open>MaxScanTokenSize\<close> bytes or more does not fit the buffer: \<open>Scan\<close>
  returns \<open>false\<close> there (\<open>bufio.ErrTooLong\<close>) and the loop of \<open>List\<close> ends.
\<close>

function ScanLines :: "string \<Rightarrow> string list" where
  "ScanLines s =
     (if s = [] then []
      else let l = takeWhile (\<lambda>c. c \<noteq> CHR 0x0A) s in
        if MaxScanTokenSize \<le> length l then []
        else dropCR l # ScanLines (drop (Suc (length l)) s))"
  by pat_completeness auto
termination
  by (relation "measure length") auto

declare ScanLines.simps [simp del]

definition worker :: "env \<Rightarrow> string \<Rightarrow> client \<Rightarrow> client \<times> event list" where
  \<comment> \<open>the closure that \<open>List\<close> hands to the pool, for one line\<close>
  "worker env line c =
     (case parseProxyLine env line of
        (Inl e, evs) \<Rightarrow> (c, evs @ [Stderr e [CHR 0x0A]])
      | (Inr (ip, u), evs) \<Rightarrow> (c\<lparr>proxies := fmupd ip u (proxies c)\<rparr>, evs))"

fun run_all :: "env \<Rightarrow> string list \<Rightarrow> client \<Rightarrow> client \<times> event list" where
  \<comment> \<open>\<open>wg.Run\<close> for every line and \<open>wg.Wait\<close>: every unit of work runs once.\<close>
  "run_all env [] c = (c, [])"
| "run_all env (l # ls) c =
     (case worker env l c of
        (c', evs) \<Rightarrow> (case run_all env ls c' of (c'', evs') \<Rightarrow> (c'', evs @ evs')))"

definition List ::
  "env \<Rightarrow> client \<Rightarrow> ((string, url) fmap option \<times> error option) outcome \<times> client \<times> event list" where
  "List env c =
     (let k = ''list_'' @ listUrl c in
      case getListCache env k c of
        (Panic p, c1, ev1) \<Rightarrow> (Panic p, c1, ev1)
      | (Return e, c1, ev1) \<Rightarrow>
          if (case e of None \<Rightarrow> False | Some e' \<Rightarrow> \<not> IsErrorOk env e')
          then (Return (None, e), c1, ev1)
          else if len (proxies c1) > 0 then (Return (Some (proxies c1), None), c1, ev1)
          else
            (case get env c1 (listUrl c1) of
               ((r, e2), ev2, _) \<Rightarrow>
                 (case e2 of
                    Some e' \<Rightarrow> (Return (None, Some e'), c1, ev1 @ ev2)
                  | None \<Rightarrow>
                 (case r of
                    None \<Rightarrow> (Panic NilDereference, c1, ev1 @ ev2)
                  | Some resp \<Rightarrow>
                 (case ReadAll (Body resp) of
                    Inl e' \<Rightarrow> (Return (None, Some e'), c1, ev1 @ ev2)
                  | Inr b \<Rightarrow>
                 (case LiftRLimits env of
                    Some e' \<Rightarrow> (Panic e', c1, ev1 @ ev2 @ [RLimits])
                  | None \<Rightarrow>
                 (case run_all env (schedule env (filter (\<lambda>l. l \<noteq> []) (ScanLines b))) c1 of
                    (c2, ev3) \<Rightarrow>
                 (case putListCache env k c2 of
                    (Some e', ev4) \<Rightarrow>
                      (Return (None, Some e'), c2, ev1 @ ev2 @ [RLimits] @ ev3 @ ev4)
                  | (None, ev4) \<Rightarrow>
                      (Return (Some (proxies c2), None), c2,
                       ev1 @ ev2 @ [RLimits] @ ev3 @ ev4)))))))))"


section \<open>Notions used to state the properties\<close>

definition probe_request :: request where
  \<comment> \<open>the request that \<open>proxyIp\<close> sends\<close>
  "probe_request =
     \<lparr>Method = MethodGet, URL = ''http://ifconfig.io/ip'', UserAgent = probe_useragent\<rparr>"

definition list_request :: "env \<Rightarrow> client \<Rightarrow> request" where
  \<comment> \<open>the request that \<open>List\<close> sends for the raw list\<close>
  "list_request env c = \<lparr>Method = MethodGet, URL = listUrl c, UserAgent = userAgent env\<rparr>"

definition candidate :: "string \<Rightarrow> url option" where
  \<comment> \<open>the proxy endpoint that the text of a line denotes, when it denotes one\<close>
  "candidate line =
     (case proxy_url_text (Split CHR '':'' (TrimSpace line)) of
        None \<Rightarrow> None
      | Some lu \<Rightarrow> (case Parse lu of Inl _ \<Rightarrow> None | Inr u \<Rightarrow> Some u))"

definition probe_accepted :: "env \<Rightarrow> url \<Rightarrow> string option" where
  \<comment> \<open>The validation rule in the spec's words: the probe's response has status exactly
      200 and its body, trimmed, is a valid IP literal; then that literal.\<close>
  "probe_accepted env u =
     (case ProxyClient env u probe_request 0 of
        Failed _ \<Rightarrow> None
      | Responded resp \<Rightarrow>
          if StatusCode resp = 200 \<and> read_err (Body resp) = None
             \<and> IsValidIp env (TrimSpace (data (Body resp)))
          then Some (TrimSpace (data (Body resp)))
          else None)"

definition events :: "'a \<times> 'b \<times> event list \<Rightarrow> event list" where
  "events r = snd (snd r)"

definition successes :: "env \<Rightarrow> string list \<Rightarrow> (string \<times> url) list" where
  \<comment> \<open>the entries of the lines whose validation succeeds\<close>
  "successes env ls =
     List.map_filter
       (\<lambda>l. case fst (parseProxyLine env l) of Inl _ \<Rightarrow> None | Inr p \<Rightarrow> Some p) ls"


definition http_url :: "userinfo option \<Rightarrow> string \<Rightarrow> url" where
  \<comment> \<open>the \<open>url.URL\<close> of a plain HTTP proxy: scheme, credentials, host and port\<close>
  "http_url usr hostport = empty_url\<lparr>Scheme := ''http'', User := usr, Host := hostport\<rparr>"


definition round_trips :: "event list \<Rightarrow> (url option \<times> request) list" where
  \<comment> \<open>the round trips among the effects, in order\<close>
  "round_trips evs =
     List.map_filter (\<lambda>ev. case ev of RoundTrip px r \<Rightarrow> Some (px, r) | _ \<Rightarrow> None) evs"

definition is_probe_effect :: "event \<Rightarrow> bool" where
  \<comment> \<open>an effect of the validation of a line: a round trip or a line on the error stream\<close>
  "is_probe_effect ev = (case ev of RoundTrip _ _ \<Rightarrow> True | Stderr _ _ \<Rightarrow> True | _ \<Rightarrow> False)"

section \<open>Example environments\<close>

text \<open>
  Concrete collaborators for the examples. \<open>example_Decode\<close> agrees with
  \<open>encoding/json\<close> on the bodies the examples use: the object with the field
  \<open>detail\<close>, the empty object, and the empty body, on which \<open>Decode\<close> returns
  \<open>io.EOF\<close>. \<open>example_IsValidIp\<close> accepts the two addresses that the probes of the
  examples echo. In \<open>example_env\<close> the cache has no entry, every probe times out, and
  the pool finishes the lines in the order of the list.
\<close>

definition example_Decode :: "body \<Rightarrow> error + string" where
  "example_Decode b =
     (if data b = ''{\"detail\":\"not found\"}'' then Inr ''not found''
      else if data b = ''{}'' then Inr []
      else if data b = [] then Inl (External ''EOF'')
      else Inl (External ''invalid character''))"

definition example_IsValidIp :: "string \<Rightarrow> bool" where
  "example_IsValidIp s = (s = ''5.6.7.8'' \<or> s = ''9.9.9.9'')"

definition example_env :: env where
  "example_env =
     \<lparr>Decode_detail = example_Decode, backoffs = 5, IsValidIp = example_IsValidIp,
      ParseUrl = Parse, LiftRLimits = None,
      ProxyClient = (\<lambda>u r n. Failed (External ''timeout'')),
      cache_Get = (\<lambda>k. (Some (External ''cache: not found''), [])),
      cache_Put = (\<lambda>k l. None),
      IsErrorOk = (\<lambda>e. e = External ''cache: not found''),
      url_String = Host, schedule = (\<lambda>ls. ls),
      GOOS = ''linux'', GOARCH = ''amd64''\<rparr>"

definition script_429_429_200 :: "request \<Rightarrow> nat \<Rightarrow> round_trip" where
  \<comment> \<open>a transport that answers 429 twice and then 200\<close>
  "script_429_429_200 r n =
     Responded \<lparr>StatusCode = (if n < 2 then 429 else 200),
                Body = \<lparr>data = (if n < 2 then [] else ''1.1.1.1:80''), read_err = None\<rparr>\<rparr>"

definition echo :: "string \<Rightarrow> round_trip" where
  \<comment> \<open>the answer of the echo service: status 200 and the address on a line\<close>
  "echo ip = Responded \<lparr>StatusCode = 200, Body = \<lparr>data = ip @ [CHR 0x0A], read_err = None\<rparr>\<rparr>"

definition echo_env :: env where
  \<comment> \<open>as \<open>example_env\<close>, but every probe is answered with the address 5.6.7.8\<close>
  "echo_env = example_env\<lparr>ProxyClient := (\<lambda>u r n. echo ''5.6.7.8'')\<rparr>"

definition served :: "string \<Rightarrow> http_Client" where
  \<comment> \<open>a client whose every request is answered with status 200 and the given text\<close>
  "served text =
     \<lparr>Proxy = None,
      Do = (\<lambda>r n. Responded \<lparr>StatusCode = 200, Body = \<lparr>data = text, read_err = None\<rparr>\<rparr>)\<rparr>"

definition example_client :: "string \<Rightarrow> client" where
  \<comment> \<open>a fresh client, as \<open>NewClient\<close> builds it, whose list source serves the given text\<close>
  "example_client text =
     \<lparr>Client = served text, listUrl = ''http://list.example/proxies'', proxies = fmempty\<rparr>"

definition rlimit_env :: env where
  \<comment> \<open>as \<open>echo_env\<close>, but the resource limits cannot be raised\<close>
  "rlimit_env = echo_env\<lparr>LiftRLimits := Some (External ''operation not permitted'')\<rparr>"

definition put_fail_env :: env where
  \<comment> \<open>as \<open>echo_env\<close>, but the cache cannot be written\<close>
  "put_fail_env = echo_env\<lparr>cache_Put := (\<lambda>k l. Some (External ''disk full''))\<rparr>"

definition five_lines :: string where
  \<comment> \<open>a raw list of five lines: the first and the third are malformed\<close>
  "five_lines =
     ''not a proxy'' @ [CHR 0x0A] @ ''1.1.1.1:80'' @ [CHR 0x0A] @ ''a:b:c'' @ [CHR 0x0A]
     @ ''2.2.2.2:80'' @ [CHR 0x0A] @ ''3.3.3.3:80'' @ [CHR 0x0A]"

definition partial_env :: env where
  \<comment> \<open>as \<open>example_env\<close>, but the probes through 2.2.2.2:80 and 3.3.3.3:80 are answered,
      with distinct addresses, and the pool finishes the lines in reverse order\<close>
  "partial_env =
     example_env
       \<lparr>ProxyClient :=
          (\<lambda>u r n. if Host u = ''2.2.2.2:80'' then echo ''5.6.7.8''
                    else if Host u = ''3.3.3.3:80'' then echo ''9.9.9.9''
                    else Failed (External ''timeout'')),
        schedule := rev\<rparr>"

definition insert_all :: "('k \<times> 'v) list \<Rightarrow> ('k, 'v) fmap \<Rightarrow> ('k, 'v) fmap" where
  \<comment> \<open>the entries put into a map one after the other\<close>
  "insert_all ps m = fold (\<lambda>(k, v). fmupd k v) ps m"

definition hit_env :: env where
  \<comment> \<open>as \<open>example_env\<close>, but the cache holds a snapshot with one entry\<close>
  "hit_env = example_env\<lparr>cache_Get := (\<lambda>k. (None, [(''5.6.7.8'', ''http://1.2.3.4:80'')]))\<rparr>"

definition empty_snapshot_env :: env where
  \<comment> \<open>as \<open>example_env\<close>, but the cache holds a snapshot with no entry\<close>
  "empty_snapshot_env = example_env\<lparr>cache_Get := (\<lambda>k. (None, []))\<rparr>"

definition long_text :: string where
  \<comment> \<open>a raw list of two lines: 65536 times the letter x, then a proxy\<close>
  "long_text = replicate 65536 CHR ''x'' @ [CHR 0x0A] @ ''1.2.3.4:80'' @ [CHR 0x0A]"

section \<open>The retryable client: what is retried, and the structured error\<close>

lemma request_cases:
  "(\<exists>e. request env cl n m u ua = ((None, Some e), [], n))
   \<or> (\<exists>e evs. request env cl n m u ua = ((None, Some e), evs, Suc n))
   \<or> (\<exists>r evs. request env cl n m u ua = ((Some r, None), evs, Suc n)
        \<and> StatusCode r < StatusBadRequest)"
  by (auto simp: request_def Let_def split: sum.splits round_trip.splits prod.splits)

lemma request_resp_status:
  "request env cl n m u ua = ((Some r, e), evs, n')
     \<Longrightarrow> StatusCode r < StatusBadRequest \<and> e = None"
  using request_cases [of env cl n m u ua] by auto

text \<open>
  \<open>request\<close> hands back no response for a status of 400 or more, so the closure of
  \<open>retryRequest\<close> never sees a response with status 429 or more: whatever the policy
  grants, there is one attempt.
\<close>

lemma retry_loop_single_attempt:
  "retry_loop env cl m u ua b n = request env cl n m u ua"
proof -
  obtain resp e evs n' where r: "request env cl n m u ua = ((resp, e), evs, n')"
    by (metis prod.exhaust)
  have "\<not> (case resp of None \<Rightarrow> False | Some r \<Rightarrow> StatusCode r \<ge> StatusTooManyRequests)"
    using request_resp_status [of env cl n m u ua] r
    by (auto simp: StatusBadRequest_def StatusTooManyRequests_def split: option.splits)
  then show ?thesis
    using r by (subst retry_loop.simps) simp
qed

lemma retryRequest_is_request:
  "retryRequest env cl m u ua = request env cl 0 m u ua"
  by (simp add: retryRequest_def retry_loop_single_attempt)

text \<open>
  Claim C1 (the code departs from it). The claim: a status of 429 or more is retried,
  and a transport that answers 429, 429, 200 makes the operation succeed. The code, on
  that transport, with a policy that grants five further attempts: one round trip, no
  response, and the structured error of the first 429.
\<close>

theorem retryRequest_429_not_retried:
  "retryRequest example_env \<lparr>Proxy = None, Do = script_429_429_200\<rparr> MethodGet
       ''http://list.example/proxies'' ''ua''
   = ((None, Some (ApiError \<lparr>err = [], statusCode = 429\<rparr>)),
      [RoundTrip None \<lparr>Method = ''GET'', URL = ''http://list.example/proxies'',
                        UserAgent = ''ua''\<rparr>,
       Stderr (External ''EOF'') []],
      1)"
  by code_simp

lemma formatError_statusCode:
  "statusCode (fst (formatError env r)) = StatusCode r"
  by (simp add: formatError_def Let_def split: sum.splits)

lemma formatError_detail:
  "Decode_detail env (Body r) = Inr d \<Longrightarrow> d \<noteq> []
     \<Longrightarrow> formatError env r = (\<lparr>err = d, statusCode = StatusCode r\<rparr>, [])"
  by (simp add: formatError_def)

lemma formatError_no_detail:
  "Decode_detail env (Body r) = Inr []
     \<Longrightarrow> formatError env r =
         (\<lparr>err = ''error statusCode code '' @ itoa (StatusCode r) @ '': ''
                  @ StatusText (StatusCode r),
            statusCode = StatusCode r\<rparr>, [])"
  by (simp add: formatError_def)

lemma formatError_undecodable:
  "Decode_detail env (Body r) = Inl e
     \<Longrightarrow> formatError env r = (\<lparr>err = [], statusCode = StatusCode r\<rparr>, [Stderr e []])"
  by (simp add: formatError_def)

text \<open>
  Claim C2 (the code departs from it). The claim: the structured error of a status of
  400 or more carries the status code, and its message is the field \<open>detail\<close> of a JSON
  body, else the fallback text, also for an empty or invalid body. The code, on status
  404: with \<open>detail\<close> the message is \<open>not found\<close>; with a JSON body without \<open>detail\<close>
  it is the fallback text; with an empty body the decoder fails, the decoder's error
  goes to the error stream, and the message stays empty.
\<close>

theorem formatError_empty_body_no_message:
  "formatError example_env
       \<lparr>StatusCode = 404, Body = \<lparr>data = ''{\"detail\":\"not found\"}'', read_err = None\<rparr>\<rparr>
     = (\<lparr>err = ''not found'', statusCode = 404\<rparr>, [])
   \<and> formatError example_env \<lparr>StatusCode = 404, Body = \<lparr>data = ''{}'', read_err = None\<rparr>\<rparr>
     = (\<lparr>err = ''error statusCode code 404: Not Found'', statusCode = 404\<rparr>, [])
   \<and> formatError example_env \<lparr>StatusCode = 404, Body = \<lparr>data = [], read_err = None\<rparr>\<rparr>
     = (\<lparr>err = [], statusCode = 404\<rparr>, [Stderr (External ''EOF'') []])"
  by code_simp

section \<open>The probe decides what the parser returns\<close>

lemma NewRequest_probe:
  "NewRequest MethodGet ''http://ifconfig.io/ip'' =
     Inr \<lparr>Method = MethodGet, URL = ''http://ifconfig.io/ip'', UserAgent = []\<rparr>"
  by code_simp

lemma proxyIp_result:
  "fst (proxyIp env u) = Inr ip \<longleftrightarrow> probe_accepted env u = Some ip"
  by (auto simp: proxyIp_def retryRequest_is_request request_def NewRequest_probe Let_def
        probe_accepted_def probe_request_def ReadAll_def StatusBadRequest_def
      split: round_trip.splits prod.splits option.splits sum.splits if_splits)

lemma proxyIp_events_accepted:
  "probe_accepted env u = Some ip \<Longrightarrow> proxyIp env u = (Inr ip, [RoundTrip (Some u) probe_request])"
  by (auto simp: proxyIp_def retryRequest_is_request request_def NewRequest_probe Let_def
        probe_accepted_def probe_request_def ReadAll_def StatusBadRequest_def
      split: round_trip.splits prod.splits option.splits sum.splits if_splits)

lemma proxyIp_round_trip:
  "\<exists>evs. snd (proxyIp env u) = RoundTrip (Some u) probe_request # evs"
  by (auto simp: proxyIp_def retryRequest_is_request request_def NewRequest_probe Let_def
        probe_request_def ReadAll_def StatusBadRequest_def
      split: round_trip.splits prod.splits option.splits sum.splits if_splits)

lemma parseProxyLine_candidate:
  assumes "candidate line = Some u"
  shows "fst (parseProxyLine env line) =
           (case probe_accepted env u of
              Some ip \<Rightarrow> Inr (ip, u)
            | None \<Rightarrow> Inl (Errorf ''%s getting IP for line %s URL %s''
                [Err (case fst (proxyIp env u) of Inl e \<Rightarrow> e | Inr _ \<Rightarrow> NilDereference), Str line,
                 Str (the (proxy_url_text (Split CHR '':'' (TrimSpace line))))]))"
proof (cases "probe_accepted env u")
  case None
  then have "\<And>ip. fst (proxyIp env u) \<noteq> Inr ip" by (simp add: proxyIp_result)
  then obtain e evs where "proxyIp env u = (Inl e, evs)"
    by (metis fst_conv old.sum.exhaust surj_pair)
  with assms None show ?thesis
    by (auto simp: parseProxyLine_def candidate_def Let_def split: option.splits sum.splits)
next
  case (Some ip)
  with assms proxyIp_events_accepted [OF Some] show ?thesis
    by (auto simp: parseProxyLine_def candidate_def Let_def split: option.splits sum.splits)
qed

lemma parseProxyLine_no_candidate:
  "candidate line = None \<Longrightarrow> \<exists>e. parseProxyLine env line = (Inl e, [])"
  by (auto simp: parseProxyLine_def candidate_def Let_def split: option.splits sum.splits)

text \<open>
  Claim C7. A candidate proxy is put into the result map if and only if its probe is
  accepted by the rule of the spec (status exactly 200, body read in full and, trimmed,
  a valid IP literal), under that literal as key; after any other outcome of the probe
  the unit of work leaves the client as it was.
\<close>

theorem worker_inserts_iff_probe_accepted:
  assumes "candidate line = Some u"
  shows "fst (worker env line c) =
           (case probe_accepted env u of
              Some ip \<Rightarrow> c\<lparr>proxies := fmupd ip u (proxies c)\<rparr>
            | None \<Rightarrow> c)"
proof -
  obtain res evs where p: "parseProxyLine env line = (res, evs)" by (metis surj_pair)
  with parseProxyLine_candidate [OF assms, of env] show ?thesis
    by (auto simp: worker_def split: option.splits sum.splits)
qed


lemma proxyIp_cong:
  assumes "ProxyClient env u probe_request 0 = ProxyClient env' u probe_request 0"
    and "IsValidIp env = IsValidIp env'" and "Decode_detail env = Decode_detail env'"
  shows "proxyIp env u = proxyIp env' u"
  using assms
  by (auto simp: proxyIp_def retryRequest_is_request request_def NewRequest_probe Let_def
        probe_request_def formatError_def
      split: round_trip.splits prod.splits option.splits sum.splits)

lemma proxyIp_round_trips:
  "round_trips (snd (proxyIp env u)) = [(Some u, probe_request)]"
  by (auto simp: proxyIp_def retryRequest_is_request request_def NewRequest_probe Let_def
        probe_request_def ReadAll_def formatError_def round_trips_def map_filter_simps
      split: round_trip.splits prod.splits option.splits sum.splits if_splits)

text \<open>
  Claim C4, as amended. The line parser does network I/O: for a line that denotes a
  candidate it makes the probe's round trip through that candidate, exactly one round
  trip, and its result is a function of the line, of the outcome of that round trip and
  of the two collaborators that read the response. Only a line that denotes no candidate
  (wrong number of tokens, or a URL text that does not parse) is decided by its text
  alone, with no effect at all.
\<close>

theorem parseProxyLine_network_use:
  "(case candidate line of
      None \<Rightarrow> snd (parseProxyLine env line) = [] \<and> parseProxyLine env line = parseProxyLine env' line
    | Some u \<Rightarrow>
        RoundTrip (Some u) probe_request \<in> set (snd (parseProxyLine env line))
        \<and> round_trips (snd (parseProxyLine env line)) = [(Some u, probe_request)]
        \<and> (ProxyClient env u probe_request 0 = ProxyClient env' u probe_request 0
             \<and> IsValidIp env = IsValidIp env' \<and> Decode_detail env = Decode_detail env'
           \<longrightarrow> parseProxyLine env line = parseProxyLine env' line))"
proof (cases "candidate line")
  case None
  then show ?thesis
    by (auto simp: parseProxyLine_def candidate_def Let_def split: option.splits sum.splits)
next
  case (Some u)
  obtain evs where ev: "snd (proxyIp env u) = RoundTrip (Some u) probe_request # evs"
    using proxyIp_round_trip by blast
  from Some obtain lu where lu: "proxy_url_text (Split CHR '':'' (TrimSpace line)) = Some lu"
      "Parse lu = Inr u"
    by (auto simp: candidate_def split: option.splits sum.splits)
  have s: "snd (parseProxyLine env line) = snd (proxyIp env u)"
    using lu by (cases "proxyIp env u") (auto simp: parseProxyLine_def Let_def split: sum.splits)
  have 1: "RoundTrip (Some u) probe_request \<in> set (snd (parseProxyLine env line))"
    unfolding s ev by simp
  have 3: "round_trips (snd (parseProxyLine env line)) = [(Some u, probe_request)]"
    unfolding s by (rule proxyIp_round_trips)
  have 2: "parseProxyLine env line = parseProxyLine env' line"
    if "ProxyClient env u probe_request 0 = ProxyClient env' u probe_request 0"
      "IsValidIp env = IsValidIp env'" "Decode_detail env = Decode_detail env'"
    using lu proxyIp_cong [OF that] by (simp add: parseProxyLine_def Let_def)
  from Some 1 2 3 show ?thesis by simp
qed

text \<open>
  Claim C4 as stated fails: the same line gives an error where the probe times out and
  an entry where the probe is answered, and the parser's effects hold a round trip.
\<close>

theorem parseProxyLine_depends_on_probe:
  "fst (parseProxyLine example_env ''1.2.3.4:80'')
     = Inl (Errorf ''%s getting IP for line %s URL %s''
              [Err (External ''timeout''), Str ''1.2.3.4:80'', Str ''http://1.2.3.4:80''])
   \<and> fst (parseProxyLine echo_env ''1.2.3.4:80'') = Inr (''5.6.7.8'', http_url None ''1.2.3.4:80'')
   \<and> snd (parseProxyLine echo_env ''1.2.3.4:80'')
      = [RoundTrip (Some (http_url None ''1.2.3.4:80'')) probe_request]"
  by code_simp

text \<open>
  Claim C7 at a concrete line, once with an accepted probe and once with a probe that
  times out.
\<close>

theorem worker_inserts_iff_probe_accepted_witness:
  "candidate ''1.2.3.4:80'' = Some (http_url None ''1.2.3.4:80'')
   \<and> probe_accepted echo_env (http_url None ''1.2.3.4:80'') = Some ''5.6.7.8''
   \<and> fst (worker echo_env ''1.2.3.4:80'' (example_client []))
       = (example_client [])\<lparr>proxies := fmupd ''5.6.7.8'' (http_url None ''1.2.3.4:80'') fmempty\<rparr>
   \<and> probe_accepted example_env (http_url None ''1.2.3.4:80'') = None
   \<and> fst (worker example_env ''1.2.3.4:80'' (example_client [])) = example_client []"
proof -
  have c: "candidate ''1.2.3.4:80'' = Some (http_url None ''1.2.3.4:80'')" by code_simp
  have a: "probe_accepted echo_env (http_url None ''1.2.3.4:80'') = Some ''5.6.7.8''" by code_simp
  have b: "probe_accepted example_env (http_url None ''1.2.3.4:80'') = None" by code_simp
  have p: "proxies (example_client []) = fmempty" by (simp add: example_client_def)
  show ?thesis
    using worker_inserts_iff_probe_accepted [OF c, of echo_env "example_client []"]
      worker_inserts_iff_probe_accepted [OF c, of example_env "example_client []"] a b c p
    by simp
qed


text \<open>
  Claim C4 as amended, at a line with a candidate and at a line without one.
\<close>

theorem parseProxyLine_network_use_witness:
  "candidate ''1.2.3.4:80'' = Some (http_url None ''1.2.3.4:80'')
   \<and> RoundTrip (Some (http_url None ''1.2.3.4:80'')) probe_request
        \<in> set (snd (parseProxyLine echo_env ''1.2.3.4:80''))
   \<and> round_trips (snd (parseProxyLine echo_env ''1.2.3.4:80''))
        = [(Some (http_url None ''1.2.3.4:80''), probe_request)]
   \<and> parseProxyLine echo_env ''1.2.3.4:80'' = parseProxyLine (echo_env\<lparr>backoffs := 0\<rparr>) ''1.2.3.4:80''
   \<and> candidate ''1.2.3.4'' = None
   \<and> snd (parseProxyLine echo_env ''1.2.3.4'') = []
   \<and> parseProxyLine echo_env ''1.2.3.4'' = parseProxyLine example_env ''1.2.3.4''"
proof -
  have c: "candidate ''1.2.3.4:80'' = Some (http_url None ''1.2.3.4:80'')" by code_simp
  have d: "candidate ''1.2.3.4'' = None" by code_simp
  have e: "ProxyClient echo_env (http_url None ''1.2.3.4:80'') probe_request 0
             = ProxyClient (echo_env\<lparr>backoffs := 0\<rparr>) (http_url None ''1.2.3.4:80'') probe_request 0
           \<and> IsValidIp echo_env = IsValidIp (echo_env\<lparr>backoffs := 0\<rparr>)
           \<and> Decode_detail echo_env = Decode_detail (echo_env\<lparr>backoffs := 0\<rparr>)"
    by simp
  have 1: "RoundTrip (Some (http_url None ''1.2.3.4:80'')) probe_request
        \<in> set (snd (parseProxyLine echo_env ''1.2.3.4:80''))
   \<and> round_trips (snd (parseProxyLine echo_env ''1.2.3.4:80''))
        = [(Some (http_url None ''1.2.3.4:80''), probe_request)]
   \<and> parseProxyLine echo_env ''1.2.3.4:80'' = parseProxyLine (echo_env\<lparr>backoffs := 0\<rparr>) ''1.2.3.4:80''"
    using parseProxyLine_network_use
        [where line = "''1.2.3.4:80''" and env = echo_env and env' = "echo_env\<lparr>backoffs := 0\<rparr>"] e
    unfolding c option.case by blast
  have 2: "snd (parseProxyLine echo_env ''1.2.3.4'') = []
   \<and> parseProxyLine echo_env ''1.2.3.4'' = parseProxyLine example_env ''1.2.3.4''"
    using parseProxyLine_network_use
        [where line = "''1.2.3.4''" and env = echo_env and env' = example_env]
    unfolding d option.case by blast
  from c d 1 2 show ?thesis by blast
qed

section \<open>\<open>List\<close>: what aborts it and what it returns\<close>

lemma request_events:
  "ev \<in> set (fst (snd (request env cl n m u ua)))
     \<Longrightarrow> (\<exists>r. ev = RoundTrip (Proxy cl) r) \<or> (\<exists>e. ev = Stderr e [])"
  by (auto simp: request_def formatError_def Let_def
      split: sum.splits round_trip.splits prod.splits if_splits)

lemma get_events_no_RLimits:
  "get env c u = (res, evs, n) \<Longrightarrow> RLimits \<notin> set evs"
  using request_events [of RLimits env "Client c" 0 MethodGet u "userAgent env"]
  by (auto simp: get_def retryRequest_is_request)

lemma getListCache_events:
  "getListCache env k c = (r, c', evs) \<Longrightarrow> evs = [CacheGet k]"
  by (auto simp: getListCache_def split: prod.splits if_splits option.splits)

text \<open>
  Claim C3, as amended. When \<open>List\<close> comes to raise the resource limits and that
  fails, the operation aborts there by a panic that carries the failure
  (\<open>h.PanicOnError\<close>): nothing is returned to the caller, and raising the limits is
  the last effect.
\<close>

theorem List_limit_failure_panics:
  assumes "LiftRLimits env = Some e" and "RLimits \<in> set (events (List env c))"
  shows "fst (List env c) = Panic e \<and> last (events (List env c)) = RLimits"
proof -
  obtain r c1 ev1 where g: "getListCache env (''list_'' @ listUrl c) c = (r, c1, ev1)"
    by (metis surj_pair)
  then have ev1: "ev1 = [CacheGet (''list_'' @ listUrl c)]" by (rule getListCache_events)
  obtain resp e2 ev2 n where f: "get env c1 (listUrl c1) = ((resp, e2), ev2, n)"
    by (metis surj_pair)
  then have ev2: "RLimits \<notin> set ev2" by (rule get_events_no_RLimits)
  from assms g f ev1 ev2 show ?thesis
    by (auto simp: List_def Let_def events_def split: outcome.splits option.splits sum.splits prod.splits if_splits)
qed



lemma example_client_fields:
  "Client (example_client t) = served t"
  "listUrl (example_client t) = ''http://list.example/proxies''"
  "proxies (example_client t) = fmempty"
  by (simp_all add: example_client_def)

lemma len_fmempty: "len fmempty = 0"
  by (simp add: len_def)

lemma len_single: "len (fmupd k v fmempty) = 1"
  by (simp add: len_def fcard_finsert_if)

lemma put_fail_env_fields:
  "cache_Get put_fail_env k = (Some (External ''cache: not found''), [])"
  "IsErrorOk put_fail_env (External ''cache: not found'')"
  "LiftRLimits put_fail_env = None"
  "schedule put_fail_env ls = ls"
  "cache_Put put_fail_env k l = Some (External ''disk full'')"
  by (simp_all add: put_fail_env_def echo_env_def example_env_def)


lemma ScanLines_one_line: "ScanLines ''1.2.3.4:80'' = [''1.2.3.4:80'']"
  by (simp add: ScanLines.simps [of "_ # _"] ScanLines.simps [of "[]"] MaxScanTokenSize_def dropCR_def)

lemma get_example_client:
  "GOOS env = ''linux'' \<Longrightarrow> GOARCH env = ''amd64'' \<Longrightarrow>
   get env (example_client text) ''http://list.example/proxies''
     = ((Some \<lparr>StatusCode = 200, Body = \<lparr>data = text, read_err = None\<rparr>\<rparr>, None),
        [RoundTrip None \<lparr>Method = ''GET'', URL = ''http://list.example/proxies'',
                          UserAgent = ''rsocks_client/v1 linux amd64''\<rparr>], 1)"
proof -
  have n: "NewRequest MethodGet ''http://list.example/proxies''
             = Inr \<lparr>Method = ''GET'', URL = ''http://list.example/proxies'', UserAgent = []\<rparr>"
    by code_simp
  assume "GOOS env = ''linux''" "GOARCH env = ''amd64''"
  then show ?thesis
    by (simp add: get_def retryRequest_is_request request_def n example_client_def served_def
          userAgent_def Version_def StatusBadRequest_def)
qed

lemma echo_env_fields:
  "cache_Get echo_env k = (Some (External ''cache: not found''), [])"
  "IsErrorOk echo_env (External ''cache: not found'')"
  "LiftRLimits echo_env = None"
  "schedule echo_env ls = ls"
  "cache_Put echo_env k l = None"
  "GOOS echo_env = ''linux''" "GOARCH echo_env = ''amd64''"
  by (simp_all add: echo_env_def example_env_def)

lemma put_fail_env_fields2:
  "GOOS put_fail_env = ''linux''" "GOARCH put_fail_env = ''amd64''"
  by (simp_all add: put_fail_env_def echo_env_def example_env_def)

lemma parse_one_line:
  "ProxyClient env = (\<lambda>u r n. echo ''5.6.7.8'') \<Longrightarrow> IsValidIp env = example_IsValidIp \<Longrightarrow>
   parseProxyLine env ''1.2.3.4:80''
        = (Inr (''5.6.7.8'', http_url None ''1.2.3.4:80''),
           [RoundTrip (Some (http_url None ''1.2.3.4:80'')) probe_request])"
proof -
  assume a: "ProxyClient env = (\<lambda>u r n. echo ''5.6.7.8'')" "IsValidIp env = example_IsValidIp"
  have c: "candidate ''1.2.3.4:80'' = Some (http_url None ''1.2.3.4:80'')" by code_simp
  have t: "TrimSpace (''5.6.7.8'' @ [CHR 0x0A]) = ''5.6.7.8''" by code_simp
  have "probe_accepted env (http_url None ''1.2.3.4:80'') = Some ''5.6.7.8''"
    using a t by (simp add: probe_accepted_def echo_def example_IsValidIp_def)
  then have p: "proxyIp env (http_url None ''1.2.3.4:80'')
                  = (Inr ''5.6.7.8'', [RoundTrip (Some (http_url None ''1.2.3.4:80'')) probe_request])"
    by (rule proxyIp_events_accepted)
  from c p show ?thesis
    by (auto simp: parseProxyLine_def candidate_def Let_def split: option.splits sum.splits)
qed

text \<open>
  Claim C8 as stated fails: when the cache cannot be written, \<open>List\<close> returns no map
  and the error of the cache, while \<open>Total\<close> counts the entry that validation put
  into the client.
\<close>

theorem Total_drifts_when_cache_write_fails:
  "fst (List put_fail_env (example_client ''1.2.3.4:80'')) = Return (None, Some (External ''disk full''))
   \<and> Total (fst (snd (List put_fail_env (example_client ''1.2.3.4:80'')))) = 1"
proof -
  have p: "parseProxyLine put_fail_env ''1.2.3.4:80''
        = (Inr (''5.6.7.8'', http_url None ''1.2.3.4:80''),
           [RoundTrip (Some (http_url None ''1.2.3.4:80'')) probe_request])"
    by (rule parse_one_line) (simp_all add: put_fail_env_def echo_env_def example_env_def)
  have l: "List put_fail_env (example_client ''1.2.3.4:80'')
       = (Return (None, Some (External ''disk full'')),
          (example_client ''1.2.3.4:80'')\<lparr>proxies := fmupd ''5.6.7.8'' (http_url None ''1.2.3.4:80'') fmempty\<rparr>,
          events (List put_fail_env (example_client ''1.2.3.4:80'')))"
    by (simp add: List_def Let_def getListCache_def putListCache_def worker_def ReadAll_def events_def
          example_client_fields put_fail_env_fields put_fail_env_fields2 len_fmempty
          get_example_client ScanLines_one_line p)
  show ?thesis
    by (subst l, subst l) (simp add: Total_def len_single)
qed

text \<open>
  Claim C3 as stated fails: with limits that cannot be raised, \<open>List\<close> does not return
  the failure as its error; it panics.
\<close>

theorem List_limit_failure_not_returned:
  "fst (List rlimit_env (example_client ''1.2.3.4:80'')) = Panic (External ''operation not permitted'')
   \<and> fst (List rlimit_env (example_client ''1.2.3.4:80''))
       \<noteq> Return (None, Some (External ''operation not permitted''))"
  by code_simp

text \<open>
  Claim C3 as amended, on a fresh client whose list source serves one line.
\<close>

theorem List_limit_failure_panics_witness:
  "LiftRLimits rlimit_env = Some (External ''operation not permitted'')
   \<and> events (List rlimit_env (example_client ''1.2.3.4:80''))
       = [CacheGet ''list_http://list.example/proxies'',
          RoundTrip None (list_request rlimit_env (example_client ''1.2.3.4:80'')), RLimits]
   \<and> fst (List rlimit_env (example_client ''1.2.3.4:80'')) = Panic (External ''operation not permitted'')
   \<and> last (events (List rlimit_env (example_client ''1.2.3.4:80''))) = RLimits"
proof -
  have a: "LiftRLimits rlimit_env = Some (External ''operation not permitted'')" by code_simp
  have b: "events (List rlimit_env (example_client ''1.2.3.4:80''))
       = [CacheGet ''list_http://list.example/proxies'',
          RoundTrip None (list_request rlimit_env (example_client ''1.2.3.4:80'')), RLimits]"
    by code_simp
  then have c: "RLimits \<in> set (events (List rlimit_env (example_client ''1.2.3.4:80'')))"
    by simp
  from List_limit_failure_panics [OF a c] a b show ?thesis by blast
qed

lemma request_events_kind:
  "list_all is_probe_effect (fst (snd (request env cl n m u ua)))"
  by (auto simp: request_def formatError_def Let_def is_probe_effect_def
      split: sum.splits round_trip.splits prod.splits if_splits)

lemma proxyIp_events_kind: "proxyIp env u = (res, evs) \<Longrightarrow> list_all is_probe_effect evs"
  using request_events_kind [of env "\<lparr>Proxy = Some u, Do = ProxyClient env u\<rparr>" 0 MethodGet
      "''http://ifconfig.io/ip''" probe_useragent]
  by (auto simp: proxyIp_def retryRequest_is_request Let_def
      split: prod.splits option.splits sum.splits if_splits)

lemma parseProxyLine_events_kind: "list_all is_probe_effect (snd (parseProxyLine env line))"
  by (auto simp: parseProxyLine_def Let_def
      split: option.splits sum.splits prod.splits dest: proxyIp_events_kind)

lemma worker_events_kind: "list_all is_probe_effect (snd (worker env line c))"
  using parseProxyLine_events_kind [of env line]
  by (auto simp: worker_def is_probe_effect_def split: sum.splits prod.splits)

lemma run_all_events_kind: "list_all is_probe_effect (snd (run_all env ls c))"
proof (induction ls arbitrary: c)
  case Nil
  then show ?case by simp
next
  case (Cons l ls)
  obtain c' evs where w: "worker env l c = (c', evs)" by (metis surj_pair)
  obtain c'' evs' where r: "run_all env ls c' = (c'', evs')" by (metis surj_pair)
  from worker_events_kind [of env l c] w have "list_all is_probe_effect evs" by simp
  moreover from Cons.IH [of c'] r have "list_all is_probe_effect evs'" by simp
  ultimately show ?case using w r by simp
qed

lemma len_fmmap: "len (fmmap f m) = len m"
  by (simp add: len_def)

text \<open>
  Claim C8, as amended. Whenever \<open>List\<close> returns a map, it returns no error, the map
  is the client's own, and \<open>Total\<close> on the client right after is the number of its
  entries. When \<open>List\<close> returns no map and an error after it tried to write the cache,
  the error is that of the cache write, and \<open>Total\<close> counts the entries of the
  snapshot that was to be written: the entries that validation left in the client.
\<close>

theorem Total_is_size_of_returned_map:
  "(List env c = (Return (Some m, e), c', evs) \<longrightarrow>
      Total c' = int (len m) \<and> proxies c' = m \<and> e = None)
   \<and> (List env c = (Return (None, Some failure), c', evs) \<and> CachePut k l \<in> set evs \<longrightarrow>
      cache_Put env k l = Some failure \<and> l = fmmap (url_String env) (proxies c')
      \<and> Total c' = int (len l))"
proof -
  have first: "Total c' = int (len m) \<and> proxies c' = m \<and> e = None"
    if "List env c = (Return (Some m, e), c', evs)"
    using that
    by (auto simp: List_def Let_def Total_def
        split: outcome.splits option.splits sum.splits prod.splits if_splits)
  have second: "cache_Put env k l = Some failure \<and> l = fmmap (url_String env) (proxies c')
      \<and> Total c' = int (len l)"
    if a: "List env c = (Return (None, Some failure), c', evs) \<and> CachePut k l \<in> set evs"
  proof -
  obtain r c1 ev1 where g: "getListCache env (''list_'' @ listUrl c) c = (r, c1, ev1)"
    by (metis surj_pair)
  then have ev1: "ev1 = [CacheGet (''list_'' @ listUrl c)]" by (rule getListCache_events)
  obtain res ev2 n where f: "get env c1 (listUrl c1) = (res, ev2, n)"
    by (metis surj_pair)
  have ev2: "CachePut k l \<notin> set ev2"
    using request_events_kind [of env "Client c1" 0 MethodGet "listUrl c1" "userAgent env"] f
    by (auto simp: get_def retryRequest_is_request list_all_iff is_probe_effect_def)
  have ev3: "CachePut k l \<notin> set ev" if "run_all env ls c1 = (c2, ev)" for ls c2 ev
    using run_all_events_kind [of env ls c1] that
    by (auto simp: list_all_iff is_probe_effect_def)
    from a g f ev1 ev2 ev3 show ?thesis
      by (auto simp: List_def Let_def Total_def putListCache_def len_fmmap
          split: outcome.splits option.splits sum.splits prod.splits if_splits)
  qed
  from first second show ?thesis by blast
qed

text \<open>
  Claim C8 as amended, on a fresh client whose list source serves one line that
  validates: once with a cache that can be written and once with one that cannot.
\<close>

theorem Total_is_size_of_returned_map_witness:
  "List echo_env (example_client ''1.2.3.4:80'')
     = (Return (Some (fmupd ''5.6.7.8'' (http_url None ''1.2.3.4:80'') fmempty), None),
        (example_client ''1.2.3.4:80'')\<lparr>proxies := fmupd ''5.6.7.8'' (http_url None ''1.2.3.4:80'') fmempty\<rparr>,
        events (List echo_env (example_client ''1.2.3.4:80'')))
   \<and> Total ((example_client ''1.2.3.4:80'')\<lparr>proxies := fmupd ''5.6.7.8'' (http_url None ''1.2.3.4:80'') fmempty\<rparr>)
       = int (len (fmupd ''5.6.7.8'' (http_url None ''1.2.3.4:80'') fmempty))
   \<and> fst (List put_fail_env (example_client ''1.2.3.4:80''))
       = Return (None, Some (External ''disk full''))
   \<and> CachePut ''list_http://list.example/proxies''
         (fmmap (url_String put_fail_env) (fmupd ''5.6.7.8'' (http_url None ''1.2.3.4:80'') fmempty))
       \<in> set (events (List put_fail_env (example_client ''1.2.3.4:80'')))
   \<and> Total (fst (snd (List put_fail_env (example_client ''1.2.3.4:80''))))
       = int (len (fmmap (url_String put_fail_env)
                     (fmupd ''5.6.7.8'' (http_url None ''1.2.3.4:80'') fmempty)))"
proof -
  let ?c = "example_client ''1.2.3.4:80''"
  let ?m = "fmupd ''5.6.7.8'' (http_url None ''1.2.3.4:80'') fmempty"
  let ?k = "''list_http://list.example/proxies''"
  have p: "parseProxyLine echo_env ''1.2.3.4:80''
        = (Inr (''5.6.7.8'', http_url None ''1.2.3.4:80''),
           [RoundTrip (Some (http_url None ''1.2.3.4:80'')) probe_request])"
    by (rule parse_one_line) (simp_all add: echo_env_def example_env_def)
  have a: "List echo_env ?c = (Return (Some ?m, None), ?c\<lparr>proxies := ?m\<rparr>, events (List echo_env ?c))"
    by (simp add: List_def Let_def getListCache_def putListCache_def worker_def ReadAll_def events_def
          example_client_fields echo_env_fields len_fmempty
          get_example_client ScanLines_one_line p)
  have q: "parseProxyLine put_fail_env ''1.2.3.4:80''
        = (Inr (''5.6.7.8'', http_url None ''1.2.3.4:80''),
           [RoundTrip (Some (http_url None ''1.2.3.4:80'')) probe_request])"
    by (rule parse_one_line) (simp_all add: put_fail_env_def echo_env_def example_env_def)
  have b: "List put_fail_env ?c
       = (Return (None, Some (External ''disk full'')), ?c\<lparr>proxies := ?m\<rparr>,
          events (List put_fail_env ?c))"
    by (simp add: List_def Let_def getListCache_def putListCache_def worker_def ReadAll_def events_def
          example_client_fields put_fail_env_fields put_fail_env_fields2 len_fmempty
          get_example_client ScanLines_one_line q)
  have ev: "CachePut ?k (fmmap (url_String put_fail_env) ?m) \<in> set (events (List put_fail_env ?c))"
    by (simp add: List_def Let_def getListCache_def putListCache_def worker_def ReadAll_def events_def
          example_client_fields put_fail_env_fields put_fail_env_fields2 len_fmempty
          get_example_client ScanLines_one_line q)
  have 1: "Total (?c\<lparr>proxies := ?m\<rparr>) = int (len ?m)"
    using Total_is_size_of_returned_map
      [where env = echo_env and c = ?c and m = ?m and e = None and c' = "?c\<lparr>proxies := ?m\<rparr>"
         and evs = "events (List echo_env ?c)"] a
    by blast
  have 2: "Total (?c\<lparr>proxies := ?m\<rparr>) = int (len (fmmap (url_String put_fail_env) ?m))"
    using Total_is_size_of_returned_map
      [where env = put_fail_env and c = ?c and failure = "External ''disk full''"
         and c' = "?c\<lparr>proxies := ?m\<rparr>" and evs = "events (List put_fail_env ?c)"
         and k = ?k and l = "fmmap (url_String put_fail_env) ?m"] b ev
    by blast
  have 3: "fst (snd (List put_fail_env ?c)) = ?c\<lparr>proxies := ?m\<rparr>"
    by (subst b) simp
  have 4: "fst (List put_fail_env ?c) = Return (None, Some (External ''disk full''))"
    by (subst b) simp
  from a 1 2 ev 4 show ?thesis unfolding 3 by blast
qed

section \<open>\<open>List\<close>: the cache, the fetch and partial failure\<close>

lemma get_events_head:
  "Parse u = Inr pu \<Longrightarrow>
   \<exists>res evs n. get env c u =
      (res, RoundTrip (Proxy (Client c)) \<lparr>Method = MethodGet, URL = u, UserAgent = userAgent env\<rparr> # evs, n)"
  by (auto simp: get_def retryRequest_is_request request_def NewRequest_def Let_def
      split: round_trip.splits prod.splits)

lemma get_unparsable:
  "Parse u = Inl pe \<Longrightarrow> get env c u = ((None, Some pe), [], 0)"
  by (simp add: get_def retryRequest_is_request request_def NewRequest_def)

lemma load_cached_frame:
  "load_cached env l c = (r, c') \<Longrightarrow> Client c' = Client c \<and> listUrl c' = listUrl c"
  by (induction l arbitrary: c) (auto split: sum.splits)

lemma getListCache_frame:
  "getListCache env k c = (r, c', evs) \<Longrightarrow> Client c' = Client c \<and> listUrl c' = listUrl c"
  by (auto simp: getListCache_def split: prod.splits if_splits option.splits
      dest: load_cached_frame)

lemma getListCache_nothing_cached:
  assumes "snd (cache_Get env k) = []"
  shows "getListCache env k c =
           (Return (case fst (cache_Get env k) of
                      None \<Rightarrow> None
                    | Some e \<Rightarrow> if IsErrorOk env e then None else Some e), c, [CacheGet k])"
  using assms by (auto simp: getListCache_def split: prod.splits option.splits)

lemma List_early_return:
  assumes "fst (List env c) = Return (Some m, None)"
    and "RoundTrip (Proxy (Client c)) (list_request env c) \<notin> set (events (List env c))"
  shows "0 < len m \<and> (0 < len (proxies c) \<or> snd (cache_Get env (''list_'' @ listUrl c)) \<noteq> [])"
proof -
  obtain r c1 ev1 where g: "getListCache env (''list_'' @ listUrl c) c = (r, c1, ev1)"
    by (metis surj_pair)
  then have fr: "Client c1 = Client c" "listUrl c1 = listUrl c"
    using getListCache_frame by blast+
  have same: "c1 = c" if "snd (cache_Get env (''list_'' @ listUrl c)) = []"
    using getListCache_nothing_cached [OF that, of c] g by simp
  show ?thesis
  proof (cases "Parse (listUrl c)")
    case (Inl pe)
    from get_unparsable [OF Inl, of env c1] assms(1) g fr show ?thesis
      using same
      by (auto simp: List_def Let_def split: outcome.splits option.splits if_splits)
  next
    case (Inr pu)
    from get_events_head [OF Inr, of env c1] obtain res evs n where
      f: "get env c1 (listUrl c) = (res, RoundTrip (Proxy (Client c)) (list_request env c) # evs, n)"
      by (auto simp: fr list_request_def)
    from assms g f fr show ?thesis
      using same
      by (auto simp: List_def Let_def events_def
          split: outcome.splits option.splits sum.splits prod.splits if_splits)
  qed
qed

lemma List_fetches:
  assumes "snd (cache_Get env (''list_'' @ listUrl c)) = []"
    and "case fst (cache_Get env (''list_'' @ listUrl c)) of None \<Rightarrow> True | Some e \<Rightarrow> IsErrorOk env e"
    and "proxies c = fmempty"
  shows "case Parse (listUrl c) of
           Inr _ \<Rightarrow> RoundTrip (Proxy (Client c)) (list_request env c) \<in> set (events (List env c))
         | Inl pe \<Rightarrow> fst (List env c) = Return (None, Some pe)"
proof -
  have g: "getListCache env (''list_'' @ listUrl c) c = (Return None, c, [CacheGet (''list_'' @ listUrl c)])"
    using getListCache_nothing_cached [OF assms(1), of c] assms(2)
    by (auto split: option.splits)
  have l0: "len (proxies c) = 0" using assms(3) by (simp add: len_fmempty)
  show ?thesis
  proof (cases "Parse (listUrl c)")
    case (Inl pe)
    from get_unparsable [OF Inl, of env c] g l0 Inl show ?thesis
      by (simp add: List_def Let_def)
  next
    case (Inr pu)
    from get_events_head [OF Inr, of env c] obtain res evs n where
      f: "get env c (listUrl c) = (res, RoundTrip (Proxy (Client c)) (list_request env c) # evs, n)"
      by (auto simp: list_request_def)
    from g f l0 Inr show ?thesis
      by (auto simp: List_def Let_def events_def
          split: outcome.splits option.splits sum.splits prod.splits if_splits)
  qed
qed


lemma successes_Nil: "successes env [] = []"
  by (simp add: successes_def map_filter_simps)

lemma successes_Cons:
  "successes env (l # ls) =
     (case fst (parseProxyLine env l) of Inl _ \<Rightarrow> successes env ls | Inr p \<Rightarrow> p # successes env ls)"
  by (simp add: successes_def map_filter_simps split: sum.splits)

lemma insert_all_Nil: "insert_all [] m = m"
  by (simp add: insert_all_def)

lemma insert_all_Cons: "insert_all ((k, v) # ps) m = insert_all ps (fmupd k v m)"
  by (simp add: insert_all_def)

lemma worker_state:
  "fst (worker env l c) = c\<lparr>proxies := insert_all (successes env [l]) (proxies c)\<rparr>"
  by (cases "parseProxyLine env l")
     (auto simp: worker_def successes_Cons successes_Nil insert_all_Cons insert_all_Nil
        split: sum.splits)

lemma run_all_state:
  "fst (run_all env ls c) = c\<lparr>proxies := insert_all (successes env ls) (proxies c)\<rparr>"
proof (induction ls arbitrary: c)
  case Nil
  then show ?case by (simp add: successes_Nil insert_all_Nil)
next
  case (Cons l ls)
  obtain c' evs where w: "worker env l c = (c', evs)" by (metis surj_pair)
  then have c': "c' = c\<lparr>proxies := insert_all (successes env [l]) (proxies c)\<rparr>"
    using worker_state [of env l c] by simp
  obtain c'' evs' where r: "run_all env ls c' = (c'', evs')" by (metis surj_pair)
  then have "c'' = c'\<lparr>proxies := insert_all (successes env ls) (proxies c')\<rparr>"
    using Cons.IH [of c'] by simp
  with w r c' show ?case
    by (cases "fst (parseProxyLine env l)")
       (auto simp: successes_Cons successes_Nil insert_all_Cons insert_all_Nil split: prod.splits)
qed

lemma insert_all_lookup:
  "fmlookup (insert_all ps m) k =
     (case map_of (rev ps) k of Some v \<Rightarrow> Some v | None \<Rightarrow> fmlookup m k)"
proof (induction ps arbitrary: m)
  case Nil
  then show ?case by (simp add: insert_all_Nil)
next
  case (Cons p ps)
  obtain a b where p: "p = (a, b)" by (cases p)
  show ?case
    unfolding p insert_all_Cons Cons.IH
    by (auto simp: map_add_def split: option.splits)
qed

lemma map_of_perm:
  assumes "mset ps' = mset ps" and "distinct (map fst ps)"
  shows "map_of ps' = map_of ps"
proof -
  from assms(1) have "mset (map fst ps') = mset (map fst ps)" by simp
  with assms(2) have d: "distinct (map fst ps')"
    by (metis mset_eq_imp_distinct_iff)
  from assms(1) have "set ps' = set ps" by (rule mset_eq_setD)
  with d assms(2) show ?thesis by (simp add: map_of_inject_set)
qed

lemma insert_all_perm:
  assumes "mset ps' = mset ps" and "distinct (map fst ps)"
  shows "insert_all ps' fmempty = fmap_of_list ps"
proof (rule fmap_ext)
  fix k
  have "mset (rev ps') = mset ps" using assms(1) by simp
  then have "map_of (rev ps') = map_of ps" using assms(2) by (rule map_of_perm)
  then show "fmlookup (insert_all ps' fmempty) k = fmlookup (fmap_of_list ps) k"
    by (simp add: insert_all_lookup fmlookup_of_list split: option.splits)
qed

lemma successes_mset:
  "mset ls' = mset ls \<Longrightarrow> mset (successes env ls') = mset (successes env ls)"
  by (simp add: successes_def List.map_filter_def)

lemma len_fmap_of_list:
  "distinct (map fst ps) \<Longrightarrow> len (fmap_of_list ps) = length ps"
proof -
  assume d: "distinct (map fst ps)"
  have "fcard (fset_of_list (map fst ps)) = card (set (map fst ps))"
    by (simp add: fcard.rep_eq fset_of_list.rep_eq)
  also have "\<dots> = length ps" using d distinct_card by fastforce
  finally show ?thesis by (simp add: len_def)
qed




text \<open>
  Partial failure among the lines that the scanner delivers. A failure of a line's
  validation never becomes the error of \<open>List\<close> and never stops the lines after it.
  With nothing usable in the cache or in memory, the raw list fetched and read, the
  limits raised and the cache written, for every order in which the pool finishes the
  lines, with distinct IPs among the lines that succeed: \<open>List\<close> returns no error and
  the map of exactly the entries of the delivered lines that succeed, as many as there
  are such lines.
\<close>

theorem List_partial_failure:
  fixes env c b
  defines "ls \<equiv> filter (\<lambda>l. l \<noteq> []) (ScanLines b)"
  assumes cache: "snd (cache_Get env (''list_'' @ listUrl c)) = []"
      "case fst (cache_Get env (''list_'' @ listUrl c)) of None \<Rightarrow> True | Some e \<Rightarrow> IsErrorOk env e"
    and mem: "proxies c = fmempty"
    and fetch: "get env c (listUrl c) = ((Some resp, None), ev2, n)" "ReadAll (Body resp) = Inr b"
    and lim: "LiftRLimits env = None"
    and sched: "mset (schedule env ls) = mset ls"
    and ips: "distinct (map fst (successes env ls))"
    and put: "cache_Put env (''list_'' @ listUrl c)
                (fmmap (url_String env) (fmap_of_list (successes env ls))) = None"
  shows "fst (List env c) = Return (Some (fmap_of_list (successes env ls)), None)
         \<and> len (fmap_of_list (successes env ls)) = length (successes env ls)"
proof -
  have g: "getListCache env (''list_'' @ listUrl c) c
             = (Return None, c, [CacheGet (''list_'' @ listUrl c)])"
    using getListCache_nothing_cached [OF cache(1), of c] cache(2)
    by (auto split: option.splits)
  have l0: "len (proxies c) = 0" using mem by (simp add: len_fmempty)
  have "mset (successes env (schedule env ls)) = mset (successes env ls)"
    using sched by (rule successes_mset)
  then have m: "insert_all (successes env (schedule env ls)) fmempty
                  = fmap_of_list (successes env ls)"
    using ips by (rule insert_all_perm)
  obtain c2 ev3 where r: "run_all env (schedule env ls) c = (c2, ev3)" by (metis surj_pair)
  then have c2: "proxies c2 = fmap_of_list (successes env ls)"
    using run_all_state [of env "schedule env ls" c] m mem by simp
  have "fst (List env c) = Return (Some (fmap_of_list (successes env ls)), None)"
    using g l0 fetch lim r c2 put
    by (simp add: List_def Let_def putListCache_def ls_def)
  with len_fmap_of_list [OF ips] show ?thesis by simp
qed

text \<open>
  The scenario of the spec: five lines, two malformed, one whose probe times out, two
  whose probes succeed with distinct IPs; the pool finishes the lines in reverse order.
  \<open>List\<close> returns two entries and no error.
\<close>

theorem List_partial_failure_witness:
  "filter (\<lambda>l. l \<noteq> []) (ScanLines five_lines)
     = [''not a proxy'', ''1.1.1.1:80'', ''a:b:c'', ''2.2.2.2:80'', ''3.3.3.3:80'']
   \<and> successes partial_env [''not a proxy'', ''1.1.1.1:80'', ''a:b:c'', ''2.2.2.2:80'', ''3.3.3.3:80'']
     = [(''5.6.7.8'', http_url None ''2.2.2.2:80''), (''9.9.9.9'', http_url None ''3.3.3.3:80'')]
   \<and> fst (List partial_env (example_client five_lines))
     = Return (Some (fmap_of_list [(''5.6.7.8'', http_url None ''2.2.2.2:80''),
                                   (''9.9.9.9'', http_url None ''3.3.3.3:80'')]), None)
   \<and> len (fmap_of_list [(''5.6.7.8'', http_url None ''2.2.2.2:80''),
                         (''9.9.9.9'', http_url None ''3.3.3.3:80'')]) = 2"
proof -
  let ?c = "example_client five_lines"
  have e: "cache_Get partial_env k = (Some (External ''cache: not found''), [])"
      "IsErrorOk partial_env (External ''cache: not found'')"
      "LiftRLimits partial_env = None" "schedule partial_env = rev"
      "cache_Put partial_env k l = None"
      "GOOS partial_env = ''linux''" "GOARCH partial_env = ''amd64''" for k l
    by (simp_all add: partial_env_def example_env_def)
  have s: "filter (\<lambda>l. l \<noteq> []) (ScanLines five_lines)
             = [''not a proxy'', ''1.1.1.1:80'', ''a:b:c'', ''2.2.2.2:80'', ''3.3.3.3:80'']"
    by (simp add: five_lines_def ScanLines.simps [of "_ # _"] ScanLines.simps [of "[]"]
          MaxScanTokenSize_def dropCR_def)
  have u: "successes partial_env
             [''not a proxy'', ''1.1.1.1:80'', ''a:b:c'', ''2.2.2.2:80'', ''3.3.3.3:80'']
           = [(''5.6.7.8'', http_url None ''2.2.2.2:80''), (''9.9.9.9'', http_url None ''3.3.3.3:80'')]"
    by code_simp
  have f: "get partial_env ?c (listUrl ?c)
             = ((Some \<lparr>StatusCode = 200, Body = \<lparr>data = five_lines, read_err = None\<rparr>\<rparr>, None),
                [RoundTrip None \<lparr>Method = ''GET'', URL = ''http://list.example/proxies'',
                                  UserAgent = ''rsocks_client/v1 linux amd64''\<rparr>], 1)"
    using get_example_client [of partial_env five_lines] e by (simp add: example_client_fields)
  have r: "ReadAll (Body \<lparr>StatusCode = 200, Body = \<lparr>data = five_lines, read_err = None\<rparr>\<rparr>)
             = Inr five_lines"
    by (simp add: ReadAll_def)
  have "fst (List partial_env ?c)
          = Return (Some (fmap_of_list (successes partial_env
              (filter (\<lambda>l. l \<noteq> []) (ScanLines five_lines)))), None)
        \<and> len (fmap_of_list (successes partial_env
              (filter (\<lambda>l. l \<noteq> []) (ScanLines five_lines))))
          = length (successes partial_env (filter (\<lambda>l. l \<noteq> []) (ScanLines five_lines)))"
  proof (rule List_partial_failure [OF _ _ _ f r])
    show "snd (cache_Get partial_env (''list_'' @ listUrl ?c)) = []" by (simp add: e)
    show "case fst (cache_Get partial_env (''list_'' @ listUrl ?c)) of None \<Rightarrow> True
          | Some e \<Rightarrow> IsErrorOk partial_env e" by (simp add: e)
    show "proxies ?c = fmempty" by (simp add: example_client_fields)
    show "LiftRLimits partial_env = None" by (simp add: e)
    show "mset (schedule partial_env (filter (\<lambda>l. l \<noteq> []) (ScanLines five_lines)))
            = mset (filter (\<lambda>l. l \<noteq> []) (ScanLines five_lines))" by (simp add: e)
    show "distinct (map fst (successes partial_env (filter (\<lambda>l. l \<noteq> []) (ScanLines five_lines))))"
      unfolding s u by simp
    show "cache_Put partial_env (''list_'' @ listUrl ?c)
            (fmmap (url_String partial_env)
               (fmap_of_list (successes partial_env (filter (\<lambda>l. l \<noteq> []) (ScanLines five_lines)))))
          = None" by (simp add: e)
  qed
  then show ?thesis unfolding s u using s u by simp
qed


text \<open>
  Claim C10. \<open>List\<close> returns a map without the round trip of the list fetch only when
  the map has an entry, loaded from the cache or already in memory. With a cached
  snapshot of no entry (and no fatal cache error) and nothing in memory, \<open>List\<close> goes
  on to the fetch: the round trip is made, unless the list URL does not parse, in which
  case building the request fails and that error is returned.
\<close>

theorem empty_snapshot_is_no_hit:
  "(fst (List env c) = Return (Some m, None)
      \<and> RoundTrip (Proxy (Client c)) (list_request env c) \<notin> set (events (List env c))
    \<longrightarrow> 0 < len m
        \<and> (0 < len (proxies c) \<or> snd (cache_Get env (''list_'' @ listUrl c)) \<noteq> []))
   \<and> (snd (cache_Get env (''list_'' @ listUrl c)) = []
      \<and> (case fst (cache_Get env (''list_'' @ listUrl c)) of
            None \<Rightarrow> True | Some e \<Rightarrow> IsErrorOk env e)
      \<and> proxies c = fmempty
    \<longrightarrow> (case Parse (listUrl c) of
           Inr _ \<Rightarrow> RoundTrip (Proxy (Client c)) (list_request env c) \<in> set (events (List env c))
         | Inl pe \<Rightarrow> fst (List env c) = Return (None, Some pe)))"
  using List_early_return [of env c m] List_fetches [of env c] by blast

text \<open>
  Claim C10 on a fresh client: with a snapshot of one entry there is no fetch, with an
  empty snapshot there is one.
\<close>

theorem empty_snapshot_is_no_hit_witness:
  "fst (List hit_env (example_client [])) = Return (Some (fmupd ''5.6.7.8'' (http_url None ''1.2.3.4:80'') fmempty), None)
   \<and> events (List hit_env (example_client [])) = [CacheGet ''list_http://list.example/proxies'']
   \<and> 0 < len (fmupd ''5.6.7.8'' (http_url None ''1.2.3.4:80'') fmempty)
   \<and> snd (cache_Get hit_env (''list_'' @ listUrl (example_client []))) \<noteq> []
   \<and> cache_Get empty_snapshot_env (''list_'' @ listUrl (example_client [])) = (None, [])
   \<and> RoundTrip None (list_request empty_snapshot_env (example_client []))
       \<in> set (events (List empty_snapshot_env (example_client [])))"
proof -
  let ?c = "example_client []"
  let ?m = "fmupd ''5.6.7.8'' (http_url None ''1.2.3.4:80'') fmempty"
  have pu: "Parse ''http://1.2.3.4:80'' = Inr (http_url None ''1.2.3.4:80'')" by code_simp
  have pl: "Parse ''http://list.example/proxies''
              = Inr (empty_url\<lparr>Scheme := ''http'', Host := ''list.example'', Path := ''/proxies''\<rparr>)"
    by code_simp
  have h: "cache_Get hit_env k = (None, [(''5.6.7.8'', ''http://1.2.3.4:80'')])"
      "ParseUrl hit_env = Parse" for k
    by (simp_all add: hit_env_def example_env_def)
  have e: "cache_Get empty_snapshot_env k = (None, [])" for k
    by (simp add: empty_snapshot_env_def example_env_def)
  have l: "List hit_env ?c = (Return (Some ?m, None), ?c\<lparr>proxies := ?m\<rparr>,
                              [CacheGet ''list_http://list.example/proxies''])"
    by (simp add: List_def Let_def getListCache_def h pu example_client_fields len_single)
  have 1: "fst (List hit_env ?c) = Return (Some ?m, None)"
    and 2: "events (List hit_env ?c) = [CacheGet ''list_http://list.example/proxies'']"
    by (simp_all add: l events_def)
  have 3: "RoundTrip (Proxy (Client ?c)) (list_request hit_env ?c) \<notin> set (events (List hit_env ?c))"
    unfolding 2 by simp
  have 4: "0 < len ?m \<and> (0 < len (proxies ?c) \<or> snd (cache_Get hit_env (''list_'' @ listUrl ?c)) \<noteq> [])"
    using empty_snapshot_is_no_hit [of hit_env ?c ?m] 1 3 by blast
  have 5: "snd (cache_Get empty_snapshot_env (''list_'' @ listUrl ?c)) = []
      \<and> (case fst (cache_Get empty_snapshot_env (''list_'' @ listUrl ?c)) of
            None \<Rightarrow> True | Some e \<Rightarrow> IsErrorOk empty_snapshot_env e)
      \<and> proxies ?c = fmempty"
    by (simp add: e example_client_fields)
  have 6: "RoundTrip (Proxy (Client ?c)) (list_request empty_snapshot_env ?c)
             \<in> set (events (List empty_snapshot_env ?c))"
    using empty_snapshot_is_no_hit [of empty_snapshot_env ?c ?m] 5 pl
    by (simp add: example_client_fields)
  have 7: "Proxy (Client ?c) = None" by (simp add: example_client_fields served_def)
  from 1 2 4 6 show ?thesis unfolding 7 by (simp add: h e)
qed

section \<open>Well-formed lines\<close>














lemma takeWhile_first:
  "sep \<notin> set a \<Longrightarrow> takeWhile (\<lambda>c. c \<noteq> sep) (a @ sep # b) = a"
  by (induction a) auto
























section \<open>A line beyond the scanner's buffer\<close>

lemma ScanLines_long_text: "ScanLines long_text = []"
proof -
  have nl: "CHR 0x0A \<notin> set (replicate 65536 CHR ''x'')" by simp
  have t: "takeWhile (\<lambda>c. c \<noteq> CHR 0x0A) long_text = replicate 65536 CHR ''x''"
    unfolding long_text_def using takeWhile_first [OF nl] by simp
  have ne: "long_text \<noteq> []" by (simp add: long_text_def)
  show ?thesis
    by (subst ScanLines.simps) (simp add: ne t MaxScanTokenSize_def)
qed

text \<open>
  Claim C6 (the code departs from it). The claim: no bad line stops the batch, and
  \<open>List\<close> returns exactly the entries of the lines that succeed. The code, on a raw
  list whose first line has 65536 bytes and whose second line is a proxy that
  validates: the scanner gives up at the first line, the loop of \<open>List\<close> ends without
  looking at the scanner's error, no line is validated, and \<open>List\<close> returns the empty
  map and no error, and writes the empty snapshot to the cache.
\<close>

theorem List_stops_at_overlong_line:
  "fst (parseProxyLine echo_env ''1.2.3.4:80'') = Inr (''5.6.7.8'', http_url None ''1.2.3.4:80'')
   \<and> List echo_env (example_client long_text)
       = (Return (Some fmempty, None), example_client long_text,
          [CacheGet ''list_http://list.example/proxies'',
           RoundTrip None \<lparr>Method = ''GET'', URL = ''http://list.example/proxies'',
                             UserAgent = ''rsocks_client/v1 linux amd64''\<rparr>,
           RLimits,
           CachePut ''list_http://list.example/proxies'' fmempty])"
proof -
  have p: "fst (parseProxyLine echo_env ''1.2.3.4:80'') = Inr (''5.6.7.8'', http_url None ''1.2.3.4:80'')"
    by code_simp
  have l: "List echo_env (example_client long_text)
       = (Return (Some fmempty, None), example_client long_text,
          [CacheGet ''list_http://list.example/proxies'',
           RoundTrip None \<lparr>Method = ''GET'', URL = ''http://list.example/proxies'',
                             UserAgent = ''rsocks_client/v1 linux amd64''\<rparr>,
           RLimits,
           CachePut ''list_http://list.example/proxies'' fmempty])"
    by (simp add: List_def Let_def getListCache_def putListCache_def ReadAll_def
          example_client_fields echo_env_fields len_fmempty
          get_example_client ScanLines_long_text)
  from p l show ?thesis by simp
qed

end
